theory Spec2Isabelle
  imports Complex_Main
begin

section \<open>Data model of the signing interface\<close>

text \<open>
  The component \<open>PDFSigningInterface\<close> keeps two collections of annotations in React state.
  JavaScript numbers are modelled as reals (no rounding, no \<open>NaN\<close> or \<open>Infinity\<close>): a theorem
  whose computation divides carries the hypothesis that the divisor is not zero. Page numbers,
  byte counts and pixel counts are naturals. Identifiers are strings; a fresh identifier
  (\<open>Date.now()\<close> and \<open>Math.random()\<close> in the source) is an input of the operation that needs
  it.

  The repository holds two variants of the component. The model follows the later one, which
  adds to the earlier \<open>PDFSigningInterface.tsx\<close> the \<open>pdfReady\<close> test of a page click, the
  size a signature is placed with, the validation of an uploaded file and the aspect-ratio
  lock of a signature resize. \<open>addTextField\<close>, the update and delete functions, saving,
  submitting and the handlers of a text field read the same in both. Where the earlier variant
  matters to a property, its handler is given beside the later one.

  The interfaces \<open>TextField\<close> and \<open>Signature\<close> of the source start with the same six
  fields; the record \<open>Annotation\<close> holds them and the two interfaces extend it. The field
  \<open>id\<close> of the source is \<open>id_str\<close> here.
\<close>

record Annotation =
  id_str :: string
  page_number :: nat
  x_coordinate :: real
  y_coordinate :: real
  width :: real
  height :: real

record TextField = Annotation +
  font_size :: real
  text_content :: string

record Signature = Annotation +
  signature_image_path :: string
  imageUrl :: "string option"

text \<open>
  \<open>Partial<TextField>\<close> and \<open>Partial<Signature>\<close>: an object that lists some of the fields.
  A field that is not listed is \<open>None\<close>.
\<close>

record Annotation_updates =
  upd_id :: "string option"
  upd_page_number :: "nat option"
  upd_x_coordinate :: "real option"
  upd_y_coordinate :: "real option"
  upd_width :: "real option"
  upd_height :: "real option"

record TextField_updates = Annotation_updates +
  upd_font_size :: "real option"
  upd_text_content :: "string option"

record Signature_updates = Annotation_updates +
  upd_signature_image_path :: "string option"
  upd_imageUrl :: "string option"

definition no_TextField_updates :: TextField_updates where
  "no_TextField_updates =
     \<lparr>upd_id = None, upd_page_number = None, upd_x_coordinate = None, upd_y_coordinate = None,
      upd_width = None, upd_height = None, upd_font_size = None, upd_text_content = None\<rparr>"

definition no_Signature_updates :: Signature_updates where
  "no_Signature_updates =
     \<lparr>upd_id = None, upd_page_number = None, upd_x_coordinate = None, upd_y_coordinate = None,
      upd_width = None, upd_height = None, upd_signature_image_path = None, upd_imageUrl = None\<rparr>"

text \<open>The object spread \<open>{ ...field, ...updates }\<close>: a listed field overrides the old value.\<close>

definition override :: "'a \<Rightarrow> 'a option \<Rightarrow> 'a" where
  "override old new = (case new of None \<Rightarrow> old | Some v \<Rightarrow> v)"

definition spread_Annotation ::
  "'a Annotation_scheme \<Rightarrow> 'b Annotation_updates_scheme \<Rightarrow> 'a Annotation_scheme" where
  "spread_Annotation a u =
     a\<lparr>id_str := override (id_str a) (upd_id u),
       page_number := override (page_number a) (upd_page_number u),
       x_coordinate := override (x_coordinate a) (upd_x_coordinate u),
       y_coordinate := override (y_coordinate a) (upd_y_coordinate u),
       width := override (width a) (upd_width u),
       height := override (height a) (upd_height u)\<rparr>"

definition spread_TextField :: "TextField \<Rightarrow> TextField_updates \<Rightarrow> TextField" where
  "spread_TextField field u =
     (spread_Annotation field u)
       \<lparr>font_size := override (font_size field) (upd_font_size u),
        text_content := override (text_content field) (upd_text_content u)\<rparr>"

definition spread_Signature :: "Signature \<Rightarrow> Signature_updates \<Rightarrow> Signature" where
  "spread_Signature sig u =
     (spread_Annotation sig u)
       \<lparr>signature_image_path := override (signature_image_path sig) (upd_signature_image_path u),
        imageUrl := (case upd_imageUrl u of None \<Rightarrow> imageUrl sig | Some v \<Rightarrow> Some v)\<rparr>"

subsection \<open>Observable effects\<close>

text \<open>
  A JSON value, for the body of a request. The keys of an object are kept in the order in
  which the source writes them.
\<close>

datatype json =
    JNum real
  | JStr string
  | JArr "json list"
  | JObj "(string \<times> json) list"

text \<open>
  The requests the component sends through \<open>api\<close>:
  \<open>POST /signing/{documentId}/draft\<close> and \<open>POST /signing/{documentId}/submit\<close> with a JSON
  body, \<open>POST /signing/signature/upload\<close> with one image (the canvas pixels of a drawn
  signature, or the size and type of an uploaded file), and
  \<open>GET /signing/signatures/{filename}\<close>.
\<close>

datatype upload_part = DrawnPng "nat list" | UploadedFile nat string

datatype request =
    PostDraft nat json
  | PostSubmit nat json
  | PostSignatureUpload upload_part
  | GetSignatureImage string

text \<open>
  What the user is told through \<open>alert\<close>. The constructors are named after the errors of
  the specification where it names one; the message of the source is given beside each.
\<close>

datatype alert =
    FileTooLarge nat  \<comment> \<open>File is too large. Maximum size is 5MB. Your file is ...MB\<close>
  | InvalidImageType  \<comment> \<open>Invalid file type. Please upload a PNG or JPEG image.\<close>
  | ImageTooLarge nat nat  \<comment> \<open>Image dimensions are too large. Maximum is 2000x2000px. ...\<close>
  | ImageLoadFailed  \<comment> \<open>Failed to load image. Please ensure it is a valid image file.\<close>
  | NoSignatureArtifact  \<comment> \<open>Please create or upload a signature first\<close>
  | DraftSaved  \<comment> \<open>Draft saved successfully\<close>
  | DocumentSigned  \<comment> \<open>Document signed successfully!\<close>
  | ServerError string  \<comment> \<open>error.response.data.error\<close>
  | FailedToSaveDraft  \<comment> \<open>Failed to save draft\<close>
  | FailedToSubmit  \<comment> \<open>Failed to submit signature\<close>
  | FailedToUpload  \<comment> \<open>Failed to upload signature. Please try again.\<close>

datatype callback = OnSaveDraft | OnSubmit

text \<open>
  The answer to a request: the data of the response, or a failure that may carry the
  server's message (\<open>error.response?.data?.error\<close>).
\<close>

datatype 'a response = Ok 'a | Failed "string option"

subsection \<open>Component state\<close>

datatype placement_mode = ModeNone | ModeText | ModeSignature

text \<open>
  The props \<open>isReadOnly\<close> and \<open>documentId\<close>, the \<open>useState\<close> cells the operations read or
  write, the pixel data of the signature canvas (RGBA bytes, \<open>None\<close> while the canvas is not
  mounted and \<open>signatureCanvasRef.current\<close> is \<open>null\<close>), the value of the file input, and
  the logs of what the component did to the outside: requests, alerts, callbacks.
\<close>

record state =
  isReadOnly :: bool
  documentId :: nat
  numPages :: nat
  scale :: real
  mode :: placement_mode
  textFields :: "TextField list"
  signatures :: "Signature list"
  activeField :: "string option"
  fullName :: string
  signatureImage :: "string option"
  pdfReady :: bool
  signatureCanvas :: "nat list option"
  fileInputValue :: string
  requests :: "request list"
  alerts :: "alert list"
  callbacks :: "callback list"

definition DEFAULT_TEXT_WIDTH :: real where "DEFAULT_TEXT_WIDTH = 200"
definition DEFAULT_TEXT_HEIGHT :: real where "DEFAULT_TEXT_HEIGHT = 30"
definition DEFAULT_TEXT_FONT_SIZE :: real where "DEFAULT_TEXT_FONT_SIZE = 14"
definition DEFAULT_SIGNATURE_WIDTH :: real where "DEFAULT_SIGNATURE_WIDTH = 150"
definition DEFAULT_SIGNATURE_HEIGHT :: real where "DEFAULT_SIGNATURE_HEIGHT = 60"
definition MAX_SIGNATURE_WIDTH :: real where "MAX_SIGNATURE_WIDTH = 250"
definition MAX_SIGNATURE_HEIGHT :: real where "MAX_SIGNATURE_HEIGHT = 100"
definition MIN_SIGNATURE_WIDTH :: real where "MIN_SIGNATURE_WIDTH = 80"
definition MIN_SIGNATURE_HEIGHT :: real where "MIN_SIGNATURE_HEIGHT = 30"

section \<open>Updating and deleting annotations\<close>

text \<open>
  \<open>updateTextField\<close>, \<open>updateSignature\<close> and \<open>deleteField\<close> are closures of one render: they
  map over the value of \<open>textFields\<close> (or \<open>signatures\<close>) that the render captured, and
  \<open>setTextFields\<close> replaces the cell. The captured list is the first argument. A handler
  that runs right after a render passes the current list; a handler that calls
  \<open>updateTextField\<close> twice passes the same captured list both times.
\<close>

definition updateTextField ::
  "TextField list \<Rightarrow> string \<Rightarrow> TextField_updates \<Rightarrow> state \<Rightarrow> state" where
  "updateTextField captured ident updates s =
     s\<lparr>textFields :=
         map (\<lambda>field. if id_str field = ident then spread_TextField field updates else field)
           captured\<rparr>"

definition updateSignature ::
  "Signature list \<Rightarrow> string \<Rightarrow> Signature_updates \<Rightarrow> state \<Rightarrow> state" where
  "updateSignature captured ident updates s =
     s\<lparr>signatures :=
         map (\<lambda>sig. if id_str sig = ident then spread_Signature sig updates else sig)
           captured\<rparr>"

datatype field_type = TypeText | TypeSignature

definition deleteField :: "string \<Rightarrow> field_type \<Rightarrow> state \<Rightarrow> state" where
  "deleteField ident ty s =
     (if ty = TypeText
      then s\<lparr>textFields := filter (\<lambda>f. id_str f \<noteq> ident) (textFields s)\<rparr>
      else s\<lparr>signatures := filter (\<lambda>sg. id_str sg \<noteq> ident) (signatures s)\<rparr>)"

section \<open>Placing annotations\<close>

text \<open>
  What the outside answers during one operation: the fresh identifier, the answer to
  \<open>POST /signing/signature/upload\<close> (the \<open>signature_path\<close>), the answer to
  \<open>GET /signing/signatures/{filename}\<close> (the object URL made from the blob), and what
  \<open>new Image()\<close> reports for that URL: \<open>Some (width, height)\<close> at \<open>onload\<close>, \<open>None\<close> at
  \<open>onerror\<close>.
\<close>

record env =
  newId :: string
  uploadResponse :: "string response"
  imageResponse :: "string response"
  imageDimensions :: "(nat \<times> nat) option"

text \<open>The pointer event of a page click: \<open>e.clientX\<close>, \<open>e.clientY\<close> and the page's bounding rectangle.\<close>

record click =
  clientX :: real
  clientY :: real
  rect_left :: real
  rect_top :: real

text \<open>\<open>!imagePath\<close> for \<open>string | null\<close>: \<open>null\<close> and the empty string are falsy.\<close>

definition falsy :: "string option \<Rightarrow> bool" where
  "falsy v = (case v of None \<Rightarrow> True | Some str \<Rightarrow> str = [])"

text \<open>\<open>path.split(c).pop()\<close>: the part of the path after the last \<open>c\<close>.\<close>

definition split_pop :: "char \<Rightarrow> string \<Rightarrow> string" where
  "split_pop c path = rev (takeWhile (\<lambda>ch. ch \<noteq> c) (rev path))"

definition signature_filename :: "string \<Rightarrow> string" where
  "signature_filename path =
     (if split_pop (CHR ''/'') path \<noteq> [] then split_pop (CHR ''/'') path
      else if split_pop (CHR 0x5C) path \<noteq> [] then split_pop (CHR 0x5C) path
      else path)"

definition loadSignatureImage :: "string response \<Rightarrow> string \<Rightarrow> state \<Rightarrow> string \<times> state" where
  "loadSignatureImage resp path s =
     (let s1 = s\<lparr>requests := requests s @ [GetSignatureImage (signature_filename path)]\<rparr>
      in case resp of Ok url \<Rightarrow> (url, s1) | Failed _ \<Rightarrow> ([], s1))"

definition addTextField :: "string \<Rightarrow> nat \<Rightarrow> real \<Rightarrow> real \<Rightarrow> state \<Rightarrow> state" where
  "addTextField new_id pageNum x y s =
     (let newField =
            \<lparr>id_str = new_id, page_number = pageNum, x_coordinate = x, y_coordinate = y,
             width = DEFAULT_TEXT_WIDTH, height = DEFAULT_TEXT_HEIGHT,
             font_size = DEFAULT_TEXT_FONT_SIZE, text_content = fullName s\<rparr>
      in s\<lparr>textFields := textFields s @ [newField],
           activeField := Some (id_str newField),
           mode := ModeNone\<rparr>)"

text \<open>
  The \<open>onload\<close> computation of \<open>getImageDimensions\<close>: four conditional rescalings, one after
  the other, each of which recomputes the other dimension from the aspect ratio.
\<close>

definition getImageDimensions :: "nat \<times> nat \<Rightarrow> real \<times> real" where
  "getImageDimensions img =
     (let aspectRatio = real (fst img) / real (snd img);
          width0 = real (fst img);
          height0 = real (snd img);
          (width1, height1) =
            (if width0 > MAX_SIGNATURE_WIDTH
             then (MAX_SIGNATURE_WIDTH, MAX_SIGNATURE_WIDTH / aspectRatio)
             else (width0, height0));
          (width2, height2) =
            (if height1 > MAX_SIGNATURE_HEIGHT
             then (MAX_SIGNATURE_HEIGHT * aspectRatio, MAX_SIGNATURE_HEIGHT)
             else (width1, height1));
          (width3, height3) =
            (if width2 < MIN_SIGNATURE_WIDTH
             then (MIN_SIGNATURE_WIDTH, MIN_SIGNATURE_WIDTH / aspectRatio)
             else (width2, height2));
          (width4, height4) =
            (if height3 < MIN_SIGNATURE_HEIGHT
             then (MIN_SIGNATURE_HEIGHT * aspectRatio, MIN_SIGNATURE_HEIGHT)
             else (width3, height3))
      in (width4, height4))"

text \<open>
  \<open>imageData.data.some((pixel, index) => index % 4 === 3 && pixel > 0)\<close>: some alpha byte of
  the canvas is not zero. \<open>some_indexed\<close> is \<open>Array.prototype.some\<close> with the index, counted
  from \<open>i\<close>.
\<close>

primrec some_indexed :: "('a \<Rightarrow> nat \<Rightarrow> bool) \<Rightarrow> nat \<Rightarrow> 'a list \<Rightarrow> bool" where
  "some_indexed p i [] = False"
| "some_indexed p i (x # xs) = (p x i \<or> some_indexed p (Suc i) xs)"

definition hasContent :: "nat list \<Rightarrow> bool" where
  "hasContent data = some_indexed (\<lambda>pixel index. index mod 4 = 3 \<and> pixel > 0) 0 data"

text \<open>
  \<open>addSignature\<close> from the test \<open>if (!imagePath)\<close> on: the alert when there is no artifact,
  otherwise the image is fetched, the size computed (the defaults when the image does not
  load), the signature appended with the functional update \<open>prev => [...prev, newSignature]\<close>,
  and the canvas cleared.
\<close>

definition placeSignature :: "env \<Rightarrow> nat \<Rightarrow> real \<Rightarrow> real \<Rightarrow> string option \<Rightarrow> state \<Rightarrow> state" where
  "placeSignature ev pageNum x y imagePath s =
     (case imagePath of
        None \<Rightarrow> s\<lparr>alerts := alerts s @ [NoSignatureArtifact]\<rparr>
      | Some path \<Rightarrow>
          if path = [] then s\<lparr>alerts := alerts s @ [NoSignatureArtifact]\<rparr>
          else
            (let (url, s1) = loadSignatureImage (imageResponse ev) path s;
                 (signatureWidth, signatureHeight) =
                   (case imageDimensions ev of
                      Some img \<Rightarrow> getImageDimensions img
                    | None \<Rightarrow> (DEFAULT_SIGNATURE_WIDTH, DEFAULT_SIGNATURE_HEIGHT));
                 newSignature =
                   \<lparr>id_str = newId ev, page_number = pageNum, x_coordinate = x, y_coordinate = y,
                    width = signatureWidth, height = signatureHeight,
                    signature_image_path = path, imageUrl = Some url\<rparr>
             in s1\<lparr>signatures := signatures s1 @ [newSignature],
                   mode := ModeNone,
                   activeField := Some (id_str newSignature),
                   signatureCanvas :=
                     map_option (\<lambda>data. replicate (length data) 0) (signatureCanvas s1)\<rparr>))"

text \<open>
  \<open>addSignature\<close>: the uploaded path if there is one; otherwise, when the canvas is mounted
  and has content, the drawing is uploaded first (a failed upload ends the operation after
  \<open>console.error\<close>, with nothing but the request done).
\<close>

definition addSignature :: "env \<Rightarrow> nat \<Rightarrow> real \<Rightarrow> real \<Rightarrow> state \<Rightarrow> state" where
  "addSignature ev pageNum x y s =
     (let imagePath = signatureImage s
      in case signatureCanvas s of
           None \<Rightarrow> placeSignature ev pageNum x y imagePath s
         | Some data \<Rightarrow>
             if falsy imagePath \<and> hasContent data
             then
               (let s1 = s\<lparr>requests := requests s @ [PostSignatureUpload (DrawnPng data)]\<rparr>
                in case uploadResponse ev of
                     Failed _ \<Rightarrow> s1
                   | Ok signature_path \<Rightarrow> placeSignature ev pageNum x y (Some signature_path) s1)
             else placeSignature ev pageNum x y imagePath s)"

definition handlePageClick :: "env \<Rightarrow> click \<Rightarrow> nat \<Rightarrow> state \<Rightarrow> state" where
  "handlePageClick ev e pageNum s =
     (if isReadOnly s \<or> mode s = ModeNone \<or> \<not> pdfReady s then s
      else
        (let x = (clientX e - rect_left e) / scale s;
             y = (clientY e - rect_top e) / scale s
         in if mode s = ModeText then addTextField (newId ev) pageNum x y s
            else if mode s = ModeSignature then addSignature ev pageNum x y s
            else s))"

section \<open>Saving and submitting\<close>

definition textField_json :: "TextField \<Rightarrow> json" where
  "textField_json tf =
     JObj [(''page_number'', JNum (real (page_number tf))),
           (''x_coordinate'', JNum (x_coordinate tf)),
           (''y_coordinate'', JNum (y_coordinate tf)),
           (''width'', JNum (width tf)),
           (''height'', JNum (height tf)),
           (''font_size'', JNum (font_size tf)),
           (''text_content'', JStr (text_content tf))]"

definition signature_json :: "Signature \<Rightarrow> json" where
  "signature_json sig =
     JObj [(''page_number'', JNum (real (page_number sig))),
           (''x_coordinate'', JNum (x_coordinate sig)),
           (''y_coordinate'', JNum (y_coordinate sig)),
           (''width'', JNum (width sig)),
           (''height'', JNum (height sig)),
           (''signature_image_path'', JStr (signature_image_path sig))]"

definition annotations_json :: "state \<Rightarrow> json" where
  "annotations_json s =
     JObj [(''textFields'', JArr (map textField_json (textFields s))),
           (''signatures'', JArr (map signature_json (signatures s)))]"

text \<open>\<open>alert(error.response?.data?.error || fallback)\<close>.\<close>

definition error_alert :: "string option \<Rightarrow> alert \<Rightarrow> alert" where
  "error_alert msg fallback = (case msg of None \<Rightarrow> fallback | Some m \<Rightarrow> if m = [] then fallback else ServerError m)"

definition handleSaveDraft :: "unit response \<Rightarrow> state \<Rightarrow> state" where
  "handleSaveDraft resp s =
     (let s1 = s\<lparr>requests := requests s @ [PostDraft (documentId s) (annotations_json s)]\<rparr>
      in case resp of
           Ok _ \<Rightarrow> s1\<lparr>alerts := alerts s1 @ [DraftSaved], callbacks := callbacks s1 @ [OnSaveDraft]\<rparr>
         | Failed msg \<Rightarrow> s1\<lparr>alerts := alerts s1 @ [error_alert msg FailedToSaveDraft]\<rparr>)"

text \<open>\<open>confirmed\<close> is the user's answer to \<open>confirm(...)\<close>.\<close>

definition handleSubmit :: "bool \<Rightarrow> unit response \<Rightarrow> state \<Rightarrow> state" where
  "handleSubmit confirmed resp s =
     (if \<not> confirmed then s
      else
        (let s1 = s\<lparr>requests := requests s @ [PostSubmit (documentId s) (annotations_json s)]\<rparr>
         in case resp of
              Ok _ \<Rightarrow> s1\<lparr>alerts := alerts s1 @ [DocumentSigned], callbacks := callbacks s1 @ [OnSubmit]\<rparr>
            | Failed msg \<Rightarrow> s1\<lparr>alerts := alerts s1 @ [error_alert msg FailedToSubmit]\<rparr>))"

section \<open>Uploading a signature image\<close>

text \<open>
  The chosen file: \<open>file.size\<close>, \<open>file.type\<close>, and what \<open>new Image()\<close> reports when it loads
  the file: \<open>Some (width, height)\<close> at \<open>onload\<close>, \<open>None\<close> at \<open>onerror\<close>.
\<close>

record upload_file =
  file_size :: nat
  file_type :: string
  decoded :: "(nat \<times> nat) option"

definition MAX_FILE_SIZE :: nat where "MAX_FILE_SIZE = 5 * 1024 * 1024"

definition validTypes :: "string list" where
  "validTypes = [''image/png'', ''image/jpeg'', ''image/jpg'']"

text \<open>The three early returns of the validation: each alerts and clears the file input.\<close>

definition reject_upload :: "alert \<Rightarrow> state \<Rightarrow> state" where
  "reject_upload a s = s\<lparr>alerts := alerts s @ [a], fileInputValue := []\<rparr>"

definition handleSignatureUpload :: "env \<Rightarrow> upload_file option \<Rightarrow> state \<Rightarrow> state" where
  "handleSignatureUpload ev chosen s =
     (case chosen of
        None \<Rightarrow> s
      | Some file \<Rightarrow>
          if file_size file > MAX_FILE_SIZE then reject_upload (FileTooLarge (file_size file)) s
          else if file_type file \<notin> set validTypes then reject_upload InvalidImageType s
          else
            (case decoded file of
               None \<Rightarrow> reject_upload ImageLoadFailed s
             | Some (w, h) \<Rightarrow>
                 if w > 2000 \<or> h > 2000 then reject_upload (ImageTooLarge w h) s
                 else
                   (let s1 = s\<lparr>requests := requests s @
                                  [PostSignatureUpload (UploadedFile (file_size file) (file_type file))]\<rparr>
                    in case uploadResponse ev of
                         Failed msg \<Rightarrow> reject_upload (error_alert msg FailedToUpload) s1
                       | Ok imagePath \<Rightarrow>
                           (let (url, s2) = loadSignatureImage (imageResponse ev) imagePath s1
                            in s2\<lparr>signatureImage := Some imagePath\<rparr>))))"

definition clearSignature :: "state \<Rightarrow> state" where
  "clearSignature s =
     (case signatureCanvas s of
        None \<Rightarrow> s
      | Some data \<Rightarrow> s\<lparr>signatureCanvas := Some (replicate (length data) 0), signatureImage := None\<rparr>)"

section \<open>The handlers of a rendered annotation\<close>

text \<open>
  The \<open>position\<close> prop of the \<open>Draggable\<close> around an annotation, and the \<open>width\<close> and \<open>height\<close>
  props of its \<open>Resizable\<close>: the stored geometry times the scale.
\<close>

definition draggable_position :: "'a Annotation_scheme \<Rightarrow> real \<Rightarrow> real \<times> real" where
  "draggable_position a sc = (x_coordinate a * sc, y_coordinate a * sc)"

definition resizable_size :: "'a Annotation_scheme \<Rightarrow> real \<Rightarrow> real \<times> real" where
  "resizable_size a sc = (width a * sc, height a * sc)"

text \<open>
  The handlers are closures of the render of one element \<open>tf\<close> (or \<open>sig\<close>): they read that
  element, the scale and the captured list of that render, all taken from the state.
\<close>

definition text_onStop :: "TextField \<Rightarrow> real \<times> real \<Rightarrow> state \<Rightarrow> state" where
  "text_onStop tf data s =
     updateTextField (textFields s) (id_str tf)
       (no_TextField_updates\<lparr>upd_x_coordinate := Some (fst data / scale s),
                              upd_y_coordinate := Some (snd data / scale s)\<rparr>) s"

definition text_onResize :: "TextField \<Rightarrow> real \<times> real \<Rightarrow> state \<Rightarrow> state" where
  "text_onResize tf sz s =
     updateTextField (textFields s) (id_str tf)
       (no_TextField_updates\<lparr>upd_width := Some (fst sz / scale s),
                              upd_height := Some (snd sz / scale s)\<rparr>) s"

text \<open>
  The \<open>onChange\<close> of the input of a text field calls \<open>updateTextField\<close> twice in one handler.
  Both calls map over the list the render captured, and the second \<open>setTextFields\<close> replaces
  what the first one set.
\<close>

definition text_onChange :: "TextField \<Rightarrow> string \<Rightarrow> state \<Rightarrow> state" where
  "text_onChange tf newText s =
     (let captured = textFields s;
          s1 = updateTextField captured (id_str tf)
                 (no_TextField_updates\<lparr>upd_text_content := Some newText\<rparr>) s;
          newWidth = max DEFAULT_TEXT_WIDTH (real (length newText) * 8)
      in updateTextField captured (id_str tf)
           (no_TextField_updates\<lparr>upd_width := Some newWidth\<rparr>) s1)"

definition signature_onStop :: "Signature \<Rightarrow> real \<times> real \<Rightarrow> state \<Rightarrow> state" where
  "signature_onStop sig data s =
     updateSignature (signatures s) (id_str sig)
       (no_Signature_updates\<lparr>upd_x_coordinate := Some (fst data / scale s),
                              upd_y_coordinate := Some (snd data / scale s)\<rparr>) s"

text \<open>The new size a resize of a signature stores: the aspect-ratio lock of \<open>onResize\<close>.\<close>

definition locked_size :: "Signature \<Rightarrow> real \<times> real \<Rightarrow> real \<Rightarrow> real \<times> real" where
  "locked_size sig sz sc =
     (let aspectRatio = width sig / height sig;
          newWidth = fst sz / sc;
          newHeight = snd sz / sc;
          widthChange = \<bar>newWidth - width sig\<bar>;
          heightChange = \<bar>newHeight - height sig\<bar>
      in if widthChange > heightChange
         then (newWidth, newWidth / aspectRatio)
         else (newHeight * aspectRatio, newHeight))"

definition signature_onResize :: "Signature \<Rightarrow> real \<times> real \<Rightarrow> state \<Rightarrow> state" where
  "signature_onResize sig sz s =
     (let (newWidth, newHeight) = locked_size sig sz (scale s)
      in updateSignature (signatures s) (id_str sig)
           (no_Signature_updates\<lparr>upd_width := Some newWidth, upd_height := Some newHeight\<rparr>) s)"

text \<open>
  The earlier variant of the component has no lock and passes no constraints: its \<open>onResize\<close>
  stores the reported size of a signature, divided by the scale.
\<close>

definition signature_onResize_basic :: "Signature \<Rightarrow> real \<times> real \<Rightarrow> state \<Rightarrow> state" where
  "signature_onResize_basic sig sz s =
     updateSignature (signatures s) (id_str sig)
       (no_Signature_updates\<lparr>upd_width := Some (fst sz / scale s),
                              upd_height := Some (snd sz / scale s)\<rparr>) s"

section \<open>The interaction surface\<close>

text \<open>
  The events of the rendered component. An event on an annotation names the element by its
  index in the collection. The size a \<open>Resizable\<close> reports respects its \<open>minConstraints\<close> and
  \<open>maxConstraints\<close> props, which the source sets for signatures only. A \<open>Draggable\<close> or an
  input with \<open>disabled\<close> set calls no handler, and an element that is not rendered receives no
  event. The source passes \<open>disabled={isReadOnly}\<close> to \<open>Resizable\<close> as well, but that component
  has no such prop: only the repository's own \<open>react-resizable.d.ts\<close> declares it, and a type
  declaration gives the library no behaviour. \<open>onResize\<close> never tests \<open>isReadOnly\<close>, so the
  resize events run their handler in a read-only session too.
\<close>

datatype ui_event =
    PageClick click nat
  | TextDragStop nat "real \<times> real"
  | TextResize nat "real \<times> real"
  | TextDelete nat
  | TextChange nat string
  | SignatureDragStop nat "real \<times> real"
  | SignatureResize nat "real \<times> real"
  | SignatureDelete nat
  | AddTextButton
  | AddSignatureButton
  | FullNameInput string
  | ClearCanvasButton
  | ClearUploadedButton
  | SignatureFileInput "upload_file option"
  | SaveDraftButton "unit response"
  | SubmitButton bool "unit response"

definition constrained :: "real \<times> real \<Rightarrow> real \<times> real \<Rightarrow> real \<times> real \<Rightarrow> real \<times> real" where
  "constrained lo hi sz = (min (fst hi) (max (fst lo) (fst sz)), min (snd hi) (max (snd lo) (snd sz)))"

fun ui_step :: "env \<Rightarrow> ui_event \<Rightarrow> state \<Rightarrow> state" where
  "ui_step ev (PageClick e pageNum) s =
     (if 1 \<le> pageNum \<and> pageNum \<le> numPages s then handlePageClick ev e pageNum s else s)"
| "ui_step ev (TextDragStop i data) s =
     (if i < length (textFields s) \<and> \<not> isReadOnly s then text_onStop (textFields s ! i) data s else s)"
| "ui_step ev (TextResize i sz) s =
     (if i < length (textFields s) then text_onResize (textFields s ! i) sz s else s)"
| "ui_step ev (TextDelete i) s =
     (if i < length (textFields s) \<and> activeField s = Some (id_str (textFields s ! i)) \<and> \<not> isReadOnly s
      then deleteField (id_str (textFields s ! i)) TypeText s else s)"
| "ui_step ev (TextChange i newText) s =
     (if i < length (textFields s) \<and> \<not> isReadOnly s then text_onChange (textFields s ! i) newText s else s)"
| "ui_step ev (SignatureDragStop i data) s =
     (if i < length (signatures s) \<and> \<not> isReadOnly s then signature_onStop (signatures s ! i) data s else s)"
| "ui_step ev (SignatureResize i sz) s =
     (if i < length (signatures s)
      then signature_onResize (signatures s ! i)
             (constrained (MIN_SIGNATURE_WIDTH * scale s, MIN_SIGNATURE_HEIGHT * scale s)
                (MAX_SIGNATURE_WIDTH * scale s, MAX_SIGNATURE_HEIGHT * scale s) sz) s
      else s)"
| "ui_step ev (SignatureDelete i) s =
     (if i < length (signatures s) \<and> activeField s = Some (id_str (signatures s ! i)) \<and> \<not> isReadOnly s
      then deleteField (id_str (signatures s ! i)) TypeSignature s else s)"
| "ui_step ev AddTextButton s =
     (if isReadOnly s then s
      else s\<lparr>mode := (if mode s = ModeText then ModeNone else ModeText), activeField := None\<rparr>)"
| "ui_step ev AddSignatureButton s =
     (if isReadOnly s then s
      else s\<lparr>mode := (if mode s = ModeSignature then ModeNone else ModeSignature), activeField := None\<rparr>)"
| "ui_step ev (FullNameInput v) s = (if isReadOnly s then s else s\<lparr>fullName := v\<rparr>)"
| "ui_step ev ClearCanvasButton s = (if isReadOnly s then s else clearSignature s)"
| "ui_step ev ClearUploadedButton s =
     (if isReadOnly s \<or> falsy (signatureImage s) then s else s\<lparr>signatureImage := None\<rparr>)"
| "ui_step ev (SignatureFileInput chosen) s =
     (if isReadOnly s then s else handleSignatureUpload ev chosen s)"
| "ui_step ev (SaveDraftButton resp) s = (if isReadOnly s then s else handleSaveDraft resp s)"
| "ui_step ev (SubmitButton confirmed resp) s =
     (if isReadOnly s then s else handleSubmit confirmed resp s)"

section \<open>The draft store\<close>

text \<open>The keys of a JSON object, in order.\<close>

definition json_keys :: "json \<Rightarrow> string list" where
  "json_keys j = (case j of JObj kvs \<Rightarrow> map fst kvs | _ \<Rightarrow> [])"

text \<open>
  Modelled from the spec: the draft store of the server, which is no part of this repository.
  Section 4.5 says that saving ``overwrites the remote draft'', and section 3 that a draft is
  keyed by document id: a \<open>POST /signing/{id}/draft\<close> stores its body under the id, and no
  other request touches the store.
\<close>

definition remote_store_after :: "request \<Rightarrow> (nat \<Rightarrow> json option) \<Rightarrow> (nat \<Rightarrow> json option)" where
  "remote_store_after rq store =
     (case rq of PostDraft d body \<Rightarrow> store(d := Some body) | _ \<Rightarrow> store)"

section \<open>Example inputs\<close>

text \<open>A state with two text fields and a square signature, at zoom 200%, and one set of answers from the outside.\<close>

definition example_text_1 :: TextField where
  "example_text_1 =
     \<lparr>id_str = ''text-1'', page_number = 1, x_coordinate = 10, y_coordinate = 20,
      width = 200, height = 30, font_size = 14, text_content = ''Ada''\<rparr>"

definition example_text_2 :: TextField where
  "example_text_2 =
     \<lparr>id_str = ''text-2'', page_number = 2, x_coordinate = 15, y_coordinate = 25,
      width = 320, height = 40, font_size = 14, text_content = ''Lovelace''\<rparr>"

definition example_signature :: Signature where
  "example_signature =
     \<lparr>id_str = ''sig-1'', page_number = 1, x_coordinate = 40, y_coordinate = 50,
      width = 100, height = 100, signature_image_path = ''uploads/signatures/a.png'',
      imageUrl = Some ''blob:a''\<rparr>"

definition example_state :: state where
  "example_state =
     \<lparr>isReadOnly = False, documentId = 7, numPages = 2, scale = 2, mode = ModeNone,
      textFields = [example_text_1, example_text_2], signatures = [example_signature],
      activeField = None, fullName = ''Ada Lovelace'', signatureImage = None, pdfReady = True,
      signatureCanvas = Some [0, 0, 0, 0, 0, 0, 0, 0], fileInputValue = ''C:/fakepath/a.png'',
      requests = [], alerts = [], callbacks = []\<rparr>"

definition example_env :: env where
  "example_env =
     \<lparr>newId = ''new-1'', uploadResponse = Ok ''uploads/signatures/b.png'',
      imageResponse = Ok ''blob:b'', imageDimensions = Some (300, 150)\<rparr>"

definition example_click :: click where
  "example_click = \<lparr>clientX = 130, clientY = 260, rect_left = 30, rect_top = 60\<rparr>"

text \<open>Four files for the upload input: 6 MB, 2500 by 2500 pixels, a good one, and a 6 MB GIF.\<close>

definition example_png_6mb :: upload_file where
  "example_png_6mb = \<lparr>file_size = 6 * 1024 * 1024, file_type = ''image/png'', decoded = Some (300, 150)\<rparr>"

definition example_png_2500 :: upload_file where
  "example_png_2500 = \<lparr>file_size = 40000, file_type = ''image/png'', decoded = Some (2500, 2500)\<rparr>"

definition example_png_300x150 :: upload_file where
  "example_png_300x150 = \<lparr>file_size = 40000, file_type = ''image/png'', decoded = Some (300, 150)\<rparr>"

definition example_gif_6mb :: upload_file where
  "example_gif_6mb = \<lparr>file_size = 6 * 1024 * 1024, file_type = ''image/gif'', decoded = Some (300, 150)\<rparr>"

section \<open>Properties\<close>

subsection \<open>Updates and deletions touch one annotation id of one collection\<close>

lemma map_if_absent:
  "ident \<notin> f ` set xs \<Longrightarrow> map (\<lambda>x. if f x = ident then g x else x) xs = xs"
  by (induction xs) auto

lemma spread_TextField_record:
  "spread_TextField f u =
     \<lparr>id_str = override (id_str f) (upd_id u),
      page_number = override (page_number f) (upd_page_number u),
      x_coordinate = override (x_coordinate f) (upd_x_coordinate u),
      y_coordinate = override (y_coordinate f) (upd_y_coordinate u),
      width = override (width f) (upd_width u),
      height = override (height f) (upd_height u),
      font_size = override (font_size f) (upd_font_size u),
      text_content = override (text_content f) (upd_text_content u)\<rparr>"
  by (simp add: spread_TextField_def spread_Annotation_def)

lemma spread_Signature_record:
  "spread_Signature g v =
     \<lparr>id_str = override (id_str g) (upd_id v),
      page_number = override (page_number g) (upd_page_number v),
      x_coordinate = override (x_coordinate g) (upd_x_coordinate v),
      y_coordinate = override (y_coordinate g) (upd_y_coordinate v),
      width = override (width g) (upd_width v),
      height = override (height g) (upd_height v),
      signature_image_path = override (signature_image_path g) (upd_signature_image_path v),
      imageUrl = (case upd_imageUrl v of None \<Rightarrow> imageUrl g | Some url \<Rightarrow> Some url)\<rparr>"
  by (simp add: spread_Signature_def spread_Annotation_def)

lemma updateTextField_frame:
  "signatures (updateTextField (textFields s) ident u s) = signatures s"
  "length (textFields (updateTextField (textFields s) ident u s)) = length (textFields s)"
  "i < length (textFields s) \<Longrightarrow>
     textFields (updateTextField (textFields s) ident u s) ! i =
       (if id_str (textFields s ! i) = ident then spread_TextField (textFields s ! i) u
        else textFields s ! i)"
  "ident \<notin> id_str ` set (textFields s) \<Longrightarrow> updateTextField (textFields s) ident u s = s"
  by (simp_all add: updateTextField_def map_if_absent)

lemma updateSignature_frame:
  "textFields (updateSignature (signatures s) ident v s) = textFields s"
  "length (signatures (updateSignature (signatures s) ident v s)) = length (signatures s)"
  "i < length (signatures s) \<Longrightarrow>
     signatures (updateSignature (signatures s) ident v s) ! i =
       (if id_str (signatures s ! i) = ident then spread_Signature (signatures s ! i) v
        else signatures s ! i)"
  "ident \<notin> id_str ` set (signatures s) \<Longrightarrow> updateSignature (signatures s) ident v s = s"
  by (simp_all add: updateSignature_def map_if_absent)

lemma deleteField_frame:
  "textFields (deleteField ident TypeText s) = filter (\<lambda>f. id_str f \<noteq> ident) (textFields s)"
  "signatures (deleteField ident TypeText s) = signatures s"
  "signatures (deleteField ident TypeSignature s) = filter (\<lambda>g. id_str g \<noteq> ident) (signatures s)"
  "textFields (deleteField ident TypeSignature s) = textFields s"
  by (simp_all add: deleteField_def)

text \<open>
  Claim C10. \<open>updateTextField\<close> and \<open>updateSignature\<close> replace, in the annotation with the
  given id, exactly the fields the update lists (the spread is the old record with each listed
  field overridden); every other annotation keeps its value and its place, the length of the
  collection stays, the other collection is the same, and an id that is absent leaves the whole
  state as it was. \<open>deleteField\<close> keeps, in order, the annotations of its own collection whose
  id differs, and leaves the other collection alone.
\<close>

theorem update_delete_frame:
  fixes s :: state and u :: TextField_updates and v :: Signature_updates
  shows
    "(\<forall>f. spread_TextField f u =
        \<lparr>id_str = override (id_str f) (upd_id u),
         page_number = override (page_number f) (upd_page_number u),
         x_coordinate = override (x_coordinate f) (upd_x_coordinate u),
         y_coordinate = override (y_coordinate f) (upd_y_coordinate u),
         width = override (width f) (upd_width u),
         height = override (height f) (upd_height u),
         font_size = override (font_size f) (upd_font_size u),
         text_content = override (text_content f) (upd_text_content u)\<rparr>) \<and>
     (\<forall>g. spread_Signature g v =
        \<lparr>id_str = override (id_str g) (upd_id v),
         page_number = override (page_number g) (upd_page_number v),
         x_coordinate = override (x_coordinate g) (upd_x_coordinate v),
         y_coordinate = override (y_coordinate g) (upd_y_coordinate v),
         width = override (width g) (upd_width v),
         height = override (height g) (upd_height v),
         signature_image_path = override (signature_image_path g) (upd_signature_image_path v),
         imageUrl = (case upd_imageUrl v of None \<Rightarrow> imageUrl g | Some url \<Rightarrow> Some url)\<rparr>) \<and>
     signatures (updateTextField (textFields s) ident u s) = signatures s \<and>
     length (textFields (updateTextField (textFields s) ident u s)) = length (textFields s) \<and>
     (\<forall>i < length (textFields s).
        textFields (updateTextField (textFields s) ident u s) ! i =
          (if id_str (textFields s ! i) = ident then spread_TextField (textFields s ! i) u
           else textFields s ! i)) \<and>
     (ident \<notin> id_str ` set (textFields s) \<longrightarrow> updateTextField (textFields s) ident u s = s) \<and>
     textFields (updateSignature (signatures s) ident v s) = textFields s \<and>
     length (signatures (updateSignature (signatures s) ident v s)) = length (signatures s) \<and>
     (\<forall>i < length (signatures s).
        signatures (updateSignature (signatures s) ident v s) ! i =
          (if id_str (signatures s ! i) = ident then spread_Signature (signatures s ! i) v
           else signatures s ! i)) \<and>
     (ident \<notin> id_str ` set (signatures s) \<longrightarrow> updateSignature (signatures s) ident v s = s) \<and>
     textFields (deleteField ident TypeText s) = filter (\<lambda>f. id_str f \<noteq> ident) (textFields s) \<and>
     signatures (deleteField ident TypeText s) = signatures s \<and>
     signatures (deleteField ident TypeSignature s) = filter (\<lambda>g. id_str g \<noteq> ident) (signatures s) \<and>
     textFields (deleteField ident TypeSignature s) = textFields s"
  using spread_TextField_record spread_Signature_record
    updateTextField_frame [where s = s and ident = ident and u = u]
    updateSignature_frame [where s = s and ident = ident and v = v]
    deleteField_frame [where s = s and ident = ident]
  by (intro conjI allI impI) simp_all

theorem update_delete_frame_witness:
  "textFields (updateTextField (textFields example_state) ''text-1''
       (no_TextField_updates\<lparr>upd_x_coordinate := Some 55\<rparr>) example_state) =
     [example_text_1\<lparr>x_coordinate := 55\<rparr>, example_text_2] \<and>
   signatures (updateTextField (textFields example_state) ''text-1''
       (no_TextField_updates\<lparr>upd_x_coordinate := Some 55\<rparr>) example_state) = [example_signature] \<and>
   updateSignature (signatures example_state) ''text-1''
       (no_Signature_updates\<lparr>upd_width := Some 90\<rparr>) example_state = example_state \<and>
   textFields (deleteField ''text-1'' TypeText example_state) = [example_text_2] \<and>
   signatures (deleteField ''text-1'' TypeText example_state) = [example_signature]"
proof -
  let ?u = "no_TextField_updates\<lparr>upd_x_coordinate := Some 55\<rparr>"
  let ?v = "no_Signature_updates\<lparr>upd_width := Some 90\<rparr>"
  note frame = update_delete_frame [where s = example_state and ident = "''text-1''"
      and u = ?u and v = ?v]
  have len: "length (textFields example_state) = 2"
    and t0: "textFields example_state ! 0 = example_text_1"
    and t1: "textFields example_state ! 1 = example_text_2"
    and sg: "signatures example_state = [example_signature]"
    by (simp_all add: example_state_def)
  have ids: "id_str example_text_1 = ''text-1''" "id_str example_text_2 \<noteq> ''text-1''"
    "id_str example_signature \<noteq> ''text-1''"
    by (simp_all add: example_text_1_def example_text_2_def example_signature_def)
  have sp: "spread_TextField example_text_1 ?u = example_text_1\<lparr>x_coordinate := 55\<rparr>"
    using frame
    by (simp add: no_TextField_updates_def override_def example_text_1_def)
  have "length (textFields (updateTextField (textFields example_state) ''text-1'' ?u example_state)) = 2"
    using frame len by simp
  moreover have "textFields (updateTextField (textFields example_state) ''text-1'' ?u example_state) ! 0
      = example_text_1\<lparr>x_coordinate := 55\<rparr>"
    using frame len t0 ids sp by simp
  moreover have "textFields (updateTextField (textFields example_state) ''text-1'' ?u example_state) ! 1
      = example_text_2"
    using frame len t1 ids by simp
  ultimately have upd: "textFields (updateTextField (textFields example_state) ''text-1'' ?u example_state)
      = [example_text_1\<lparr>x_coordinate := 55\<rparr>, example_text_2]"
    by (simp add: list_eq_iff_nth_eq less_Suc_eq numeral_2_eq_2)
  have sigs: "signatures (updateTextField (textFields example_state) ''text-1'' ?u example_state)
      = [example_signature]"
    using frame sg by simp
  have absent: "updateSignature (signatures example_state) ''text-1'' ?v example_state = example_state"
    using frame sg ids by simp
  have del: "textFields (deleteField ''text-1'' TypeText example_state) = [example_text_2]"
    "signatures (deleteField ''text-1'' TypeText example_state) = [example_signature]"
    using frame sg ids by (simp_all add: example_state_def)
  from upd sigs absent del show ?thesis by simp
qed

subsection \<open>Coordinates survive the round trip through the viewport\<close>

lemma map_if_same:
  "distinct (map f xs) \<Longrightarrow> a \<in> set xs \<Longrightarrow> g a = a \<Longrightarrow>
     map (\<lambda>x. if f x = f a then g x else x) xs = xs"
  by (induction xs) (auto simp: map_if_absent image_iff)

lemma spread_position_TextField:
  "sc \<noteq> 0 \<Longrightarrow>
   spread_TextField tf
     (no_TextField_updates\<lparr>upd_x_coordinate := Some (fst (draggable_position tf sc) / sc),
                            upd_y_coordinate := Some (snd (draggable_position tf sc) / sc)\<rparr>) = tf"
  by (simp add: spread_TextField_def spread_Annotation_def no_TextField_updates_def override_def
      draggable_position_def)

lemma spread_position_Signature:
  "sc \<noteq> 0 \<Longrightarrow>
   spread_Signature sg
     (no_Signature_updates\<lparr>upd_x_coordinate := Some (fst (draggable_position sg sc) / sc),
                            upd_y_coordinate := Some (snd (draggable_position sg sc) / sc)\<rparr>) = sg"
  by (simp add: spread_Signature_def spread_Annotation_def no_Signature_updates_def override_def
      draggable_position_def)

lemma text_onStop_round_trip:
  assumes "0 < scale s" "distinct (map id_str (textFields s))" "tf \<in> set (textFields s)"
  shows "text_onStop tf (draggable_position tf (scale s)) s = s"
proof -
  let ?u = "no_TextField_updates\<lparr>upd_x_coordinate := Some (fst (draggable_position tf (scale s)) / scale s),
                                  upd_y_coordinate := Some (snd (draggable_position tf (scale s)) / scale s)\<rparr>"
  have "scale s \<noteq> 0" using assms(1) by simp
  then have "spread_TextField tf ?u = tf" by (rule spread_position_TextField)
  with assms(2,3)
  have "map (\<lambda>x. if id_str x = id_str tf then spread_TextField x ?u else x) (textFields s) = textFields s"
    by (rule map_if_same)
  then show ?thesis by (simp add: text_onStop_def updateTextField_def)
qed

lemma signature_onStop_round_trip:
  assumes "0 < scale s" "distinct (map id_str (signatures s))" "sg \<in> set (signatures s)"
  shows "signature_onStop sg (draggable_position sg (scale s)) s = s"
proof -
  let ?u = "no_Signature_updates\<lparr>upd_x_coordinate := Some (fst (draggable_position sg (scale s)) / scale s),
                                  upd_y_coordinate := Some (snd (draggable_position sg (scale s)) / scale s)\<rparr>"
  have "scale s \<noteq> 0" using assms(1) by simp
  then have "spread_Signature sg ?u = sg" by (rule spread_position_Signature)
  with assms(2,3)
  have "map (\<lambda>x. if id_str x = id_str sg then spread_Signature x ?u else x) (signatures s) = signatures s"
    by (rule map_if_same)
  then show ?thesis by (simp add: signature_onStop_def updateSignature_def)
qed

lemma placeSignature_appends:
  "signatures (placeSignature ev p x y ip s) = signatures s \<or>
   (\<exists>sg. signatures (placeSignature ev p x y ip s) = signatures s @ [sg] \<and>
      x_coordinate sg = x \<and> y_coordinate sg = y \<and> page_number sg = p) "
  by (auto simp: placeSignature_def loadSignatureImage_def Let_def
      split: option.splits response.splits prod.splits)

lemma placeSignature_scale: "scale (placeSignature ev p x y ip s) = scale s"
  by (auto simp: placeSignature_def loadSignatureImage_def Let_def
      split: option.splits response.splits prod.splits)

lemma addSignature_appends:
  "signatures (addSignature ev p x y s) = signatures s \<or>
   (\<exists>sg. signatures (addSignature ev p x y s) = signatures s @ [sg] \<and>
      x_coordinate sg = x \<and> y_coordinate sg = y \<and> page_number sg = p)"
proof (cases "signatureCanvas s")
  case None
  then show ?thesis using placeSignature_appends [of ev p x y "signatureImage s" s]
    by (simp add: addSignature_def)
next
  case (Some data)
  show ?thesis
  proof (cases "falsy (signatureImage s) \<and> hasContent data")
    case False
    then show ?thesis using Some placeSignature_appends [of ev p x y "signatureImage s" s]
      by (auto simp add: addSignature_def)
  next
    case True
    show ?thesis
    proof (cases "uploadResponse ev")
      case (Failed m)
      then show ?thesis using Some True by (simp add: addSignature_def)
    next
      case (Ok path)
      then show ?thesis
        using Some True
          placeSignature_appends [of ev p x y "Some path"
            "s\<lparr>requests := requests s @ [PostSignatureUpload (DrawnPng data)]\<rparr>"]
        by (simp add: addSignature_def)
    qed
  qed
qed

lemma addSignature_scale: "scale (addSignature ev p x y s) = scale s"
  by (auto simp: addSignature_def placeSignature_scale Let_def split: option.splits response.splits)


lemma handlePageClick_ignored:
  "isReadOnly s \<or> mode s = ModeNone \<or> \<not> pdfReady s \<Longrightarrow> handlePageClick ev e pageNum s = s"
  by (auto simp: handlePageClick_def)

lemma handlePageClick_text:
  "\<not> isReadOnly s \<Longrightarrow> pdfReady s \<Longrightarrow> mode s = ModeText \<Longrightarrow>
   handlePageClick ev e pageNum s =
     addTextField (newId ev) pageNum ((clientX e - rect_left e) / scale s)
       ((clientY e - rect_top e) / scale s) s"
  by (simp add: handlePageClick_def Let_def)

lemma handlePageClick_signature:
  "\<not> isReadOnly s \<Longrightarrow> pdfReady s \<Longrightarrow> mode s = ModeSignature \<Longrightarrow>
   handlePageClick ev e pageNum s =
     addSignature ev pageNum ((clientX e - rect_left e) / scale s)
       ((clientY e - rect_top e) / scale s) s"
  by (simp add: handlePageClick_def Let_def)

text \<open>
  Claim C1. At a positive scale, the position at which an annotation is rendered (its stored
  coordinates times the scale), divided by the scale as \<open>onStop\<close> does, is the stored
  position again; so dropping an annotation where it is rendered leaves the state as it was
  (ids distinct). A page click that places a text field, or a signature, stores the click
  point relative to the page divided by the scale, and the new annotation is rendered at the
  click point. Numbers are reals here: the identity is exact.
\<close>

theorem coordinate_round_trip:
  fixes s :: state and tf :: TextField and sg :: Signature
  assumes "0 < scale s"
  shows
    "fst (draggable_position tf (scale s)) / scale s = x_coordinate tf \<and>
     snd (draggable_position tf (scale s)) / scale s = y_coordinate tf \<and>
     fst (draggable_position sg (scale s)) / scale s = x_coordinate sg \<and>
     snd (draggable_position sg (scale s)) / scale s = y_coordinate sg \<and>
     (distinct (map id_str (textFields s)) \<and> tf \<in> set (textFields s) \<longrightarrow>
        text_onStop tf (draggable_position tf (scale s)) s = s) \<and>
     (distinct (map id_str (signatures s)) \<and> sg \<in> set (signatures s) \<longrightarrow>
        signature_onStop sg (draggable_position sg (scale s)) s = s) \<and>
     (\<not> isReadOnly s \<and> pdfReady s \<and> mode s = ModeText \<longrightarrow>
        draggable_position (last (textFields (handlePageClick ev e pageNum s)))
            (scale (handlePageClick ev e pageNum s)) =
          (clientX e - rect_left e, clientY e - rect_top e)) \<and>
     (\<not> isReadOnly s \<and> pdfReady s \<and> mode s = ModeSignature \<and>
      signatures (handlePageClick ev e pageNum s) \<noteq> signatures s \<longrightarrow>
        draggable_position (last (signatures (handlePageClick ev e pageNum s)))
            (scale (handlePageClick ev e pageNum s)) =
          (clientX e - rect_left e, clientY e - rect_top e))"
proof -
  have nz: "scale s \<noteq> 0" using assms by simp
  have pos: "fst (draggable_position tf (scale s)) / scale s = x_coordinate tf"
    "snd (draggable_position tf (scale s)) / scale s = y_coordinate tf"
    "fst (draggable_position sg (scale s)) / scale s = x_coordinate sg"
    "snd (draggable_position sg (scale s)) / scale s = y_coordinate sg"
    using nz by (simp_all add: draggable_position_def)
  have ptext: "draggable_position (last (textFields (handlePageClick ev e pageNum s)))
            (scale (handlePageClick ev e pageNum s)) =
          (clientX e - rect_left e, clientY e - rect_top e)"
    if "\<not> isReadOnly s" "pdfReady s" "mode s = ModeText"
    using that nz
    by (simp add: handlePageClick_text addTextField_def Let_def draggable_position_def)
  have psig: "draggable_position (last (signatures (handlePageClick ev e pageNum s)))
            (scale (handlePageClick ev e pageNum s)) =
          (clientX e - rect_left e, clientY e - rect_top e)"
    if "\<not> isReadOnly s" "pdfReady s" "mode s = ModeSignature"
      "signatures (handlePageClick ev e pageNum s) \<noteq> signatures s"
  proof -
    let ?x = "(clientX e - rect_left e) / scale s" and ?y = "(clientY e - rect_top e) / scale s"
    have eq: "handlePageClick ev e pageNum s = addSignature ev pageNum ?x ?y s"
      using that(1-3) by (rule handlePageClick_signature)
    from that(4) addSignature_appends [of ev pageNum ?x ?y s] eq
    obtain g where "signatures (addSignature ev pageNum ?x ?y s) = signatures s @ [g]"
      "x_coordinate g = ?x" "y_coordinate g = ?y"
      by auto
    then show ?thesis
      using nz by (simp add: eq addSignature_scale draggable_position_def)
  qed
  from pos ptext psig text_onStop_round_trip [OF assms, of tf]
    signature_onStop_round_trip [OF assms, of sg]
  show ?thesis by blast
qed

theorem coordinate_round_trip_witness:
  "draggable_position
     (last (textFields (handlePageClick example_env example_click 1 (example_state\<lparr>mode := ModeText\<rparr>))))
     2 = (100, 200) \<and>
   x_coordinate
     (last (textFields (handlePageClick example_env example_click 1 (example_state\<lparr>mode := ModeText\<rparr>))))
     = 50 \<and>
   draggable_position
     (last (signatures (handlePageClick example_env example_click 1
        (example_state\<lparr>mode := ModeSignature, signatureImage := Some ''uploads/signatures/b.png''\<rparr>))))
     2 = (100, 200) \<and>
   text_onStop example_text_1 (draggable_position example_text_1 2) example_state = example_state \<and>
   signature_onStop example_signature (draggable_position example_signature 2) example_state =
     example_state \<and>
   fst (draggable_position example_signature 2) / 2 = 40"
proof -
  let ?s = "example_state\<lparr>mode := ModeText\<rparr>"
  let ?g = "example_state\<lparr>mode := ModeSignature, signatureImage := Some ''uploads/signatures/b.png''\<rparr>"
  have sc: "0 < scale ?s" "0 < scale example_state" "0 < scale ?g" "scale ?s = 2"
    "scale example_state = 2" "scale ?g = 2"
    by (simp_all add: example_state_def)
  have guard: "\<not> isReadOnly ?s \<and> pdfReady ?s \<and> mode ?s = ModeText"
    by (simp add: example_state_def)
  have ids: "distinct (map id_str (textFields example_state)) \<and>
      example_text_1 \<in> set (textFields example_state)"
    "distinct (map id_str (signatures example_state)) \<and>
      example_signature \<in> set (signatures example_state)"
    by (simp_all add: example_state_def example_text_1_def example_text_2_def)
  have click: "(clientX example_click - rect_left example_click,
      clientY example_click - rect_top example_click) = (100, 200)"
    by (simp add: example_click_def)
  have stored: "x_coordinate (last (textFields (handlePageClick example_env example_click 1 ?s))) = 50"
    by (simp add: handlePageClick_def addTextField_def Let_def example_state_def example_click_def)
  have same: "scale (handlePageClick example_env example_click 1 ?s) = 2"
    by (simp add: handlePageClick_def addTextField_def Let_def example_state_def)
  have placed: "\<not> isReadOnly ?g \<and> pdfReady ?g \<and> mode ?g = ModeSignature \<and>
      signatures (handlePageClick example_env example_click 1 ?g) \<noteq> signatures ?g"
    by (simp add: handlePageClick_def addSignature_def placeSignature_def loadSignatureImage_def
        Let_def case_prod_beta falsy_def example_state_def example_env_def)
  have same_g: "scale (handlePageClick example_env example_click 1 ?g) = 2"
    using placed sc(6) by (simp add: handlePageClick_signature addSignature_scale)
  note t = coordinate_round_trip [where tf = example_text_1 and sg = example_signature
      and ev = example_env and e = example_click and pageNum = 1]
  have a: "draggable_position (last (textFields (handlePageClick example_env example_click 1 ?s))) 2
      = (100, 200)"
    using t [OF sc(1)] guard click same by simp
  have b: "text_onStop example_text_1 (draggable_position example_text_1 2) example_state = example_state"
    and c: "fst (draggable_position example_signature 2) / 2 = 40"
    and d: "signature_onStop example_signature (draggable_position example_signature 2) example_state =
      example_state"
    using t [OF sc(2)] ids sc(5) by (simp_all add: example_signature_def)
  have e: "draggable_position (last (signatures (handlePageClick example_env example_click 1 ?g))) 2
      = (100, 200)"
    using t [OF sc(3)] placed click same_g by simp
  from a stored b c d e show ?thesis by simp
qed

subsection \<open>Page clicks in text mode\<close>

text \<open>
  Claim C8. A page click is ignored (the state is the same) when the component is read-only,
  the mode is \<open>none\<close> or the PDF is not ready. Otherwise, in mode \<open>text\<close>, the click appends
  one text field at the click point in document space, of size 200 by 30, font size 14 and
  the current full name as content (empty when the name is empty), leaves the signatures alone, makes the new
  field the active one and resets the mode to \<open>none\<close>, so that any page click that follows
  changes nothing.
\<close>

theorem page_click_text_placement:
  "(isReadOnly s \<or> mode s = ModeNone \<or> \<not> pdfReady s \<longrightarrow> handlePageClick ev e pageNum s = s) \<and>
   (\<not> isReadOnly s \<and> pdfReady s \<and> mode s = ModeText \<longrightarrow>
      textFields (handlePageClick ev e pageNum s) =
        textFields s @
          [\<lparr>id_str = newId ev, page_number = pageNum,
            x_coordinate = (clientX e - rect_left e) / scale s,
            y_coordinate = (clientY e - rect_top e) / scale s,
            width = 200, height = 30, font_size = 14, text_content = fullName s\<rparr>] \<and>
      signatures (handlePageClick ev e pageNum s) = signatures s \<and>
      activeField (handlePageClick ev e pageNum s) = Some (newId ev) \<and>
      mode (handlePageClick ev e pageNum s) = ModeNone \<and>
      handlePageClick ev' e' pageNum' (handlePageClick ev e pageNum s) =
        handlePageClick ev e pageNum s)"
proof (intro conjI impI)
  assume "isReadOnly s \<or> mode s = ModeNone \<or> \<not> pdfReady s"
  then show "handlePageClick ev e pageNum s = s" by (rule handlePageClick_ignored)
next
  assume g: "\<not> isReadOnly s \<and> pdfReady s \<and> mode s = ModeText"
  let ?s' = "handlePageClick ev e pageNum s"
  have eq: "?s' = addTextField (newId ev) pageNum ((clientX e - rect_left e) / scale s)
       ((clientY e - rect_top e) / scale s) s"
    using g by (simp add: handlePageClick_text)
  show "textFields ?s' =
        textFields s @
          [\<lparr>id_str = newId ev, page_number = pageNum,
            x_coordinate = (clientX e - rect_left e) / scale s,
            y_coordinate = (clientY e - rect_top e) / scale s,
            width = 200, height = 30, font_size = 14, text_content = fullName s\<rparr>]"
    by (simp add: eq addTextField_def Let_def DEFAULT_TEXT_WIDTH_def DEFAULT_TEXT_HEIGHT_def
        DEFAULT_TEXT_FONT_SIZE_def)
  show "signatures ?s' = signatures s" by (simp add: eq addTextField_def Let_def)
  show "activeField ?s' = Some (newId ev)" by (simp add: eq addTextField_def Let_def)
  show m: "mode ?s' = ModeNone" by (simp add: eq addTextField_def Let_def)
  show "handlePageClick ev' e' pageNum' ?s' = ?s'"
    using m by (simp add: handlePageClick_ignored)
qed

theorem page_click_text_placement_witness:
  "textFields (handlePageClick example_env example_click 2 (example_state\<lparr>mode := ModeText\<rparr>)) =
     [example_text_1, example_text_2,
      \<lparr>id_str = ''new-1'', page_number = 2, x_coordinate = 50, y_coordinate = 100,
       width = 200, height = 30, font_size = 14, text_content = ''Ada Lovelace''\<rparr>] \<and>
   mode (handlePageClick example_env example_click 2 (example_state\<lparr>mode := ModeText\<rparr>)) = ModeNone \<and>
   handlePageClick example_env example_click 1
     (handlePageClick example_env example_click 2 (example_state\<lparr>mode := ModeText\<rparr>)) =
     handlePageClick example_env example_click 2 (example_state\<lparr>mode := ModeText\<rparr>) \<and>
   handlePageClick example_env example_click 2 example_state = example_state \<and>
   handlePageClick example_env example_click 2 (example_state\<lparr>mode := ModeText, isReadOnly := True\<rparr>) =
     example_state\<lparr>mode := ModeText, isReadOnly := True\<rparr>"
proof -
  let ?s = "example_state\<lparr>mode := ModeText\<rparr>"
  let ?r = "example_state\<lparr>mode := ModeText, isReadOnly := True\<rparr>"
  have guard: "\<not> isReadOnly ?s \<and> pdfReady ?s \<and> mode ?s = ModeText"
    by (simp add: example_state_def)
  have vals: "textFields ?s = [example_text_1, example_text_2]" "newId example_env = ''new-1''"
    "fullName ?s = ''Ada Lovelace''" "(clientX example_click - rect_left example_click) / scale ?s = 50"
    "(clientY example_click - rect_top example_click) / scale ?s = 100"
    by (simp_all add: example_state_def example_env_def example_click_def)
  have idle: "isReadOnly example_state \<or> mode example_state = ModeNone \<or> \<not> pdfReady example_state"
    "isReadOnly ?r \<or> mode ?r = ModeNone \<or> \<not> pdfReady ?r"
    by (simp_all add: example_state_def)
  from page_click_text_placement [of ?s example_env example_click 2 example_env example_click 1]
    page_click_text_placement [of example_state example_env example_click 2]
    page_click_text_placement [of ?r example_env example_click 2]
    guard vals idle
  show ?thesis by simp
qed

subsection \<open>Text fields grow with their content\<close>

lemma text_onChange_fields:
  "textFields (text_onChange tf newText s) =
     map (\<lambda>field. if id_str field = id_str tf
                   then field\<lparr>width := max 200 (real (length newText) * 8)\<rparr> else field)
       (textFields s)"
  by (simp add: text_onChange_def updateTextField_def Let_def spread_TextField_def
      spread_Annotation_def no_TextField_updates_def override_def DEFAULT_TEXT_WIDTH_def)

lemma text_onChange_others:
  "signatures (text_onChange tf newText s) = signatures s"
  "length (textFields (text_onChange tf newText s)) = length (textFields s)"
  by (simp_all add: text_onChange_def updateTextField_def Let_def)

lemma text_onResize_fields:
  "length (textFields (text_onResize tf sz s)) = length (textFields s)"
  "isReadOnly (text_onResize tf sz s) = isReadOnly s"
  by (simp_all add: text_onResize_def updateTextField_def)

text \<open>
  Claim C9. When the input of a text field reports a new string, the field's width becomes
  the maximum of 200 and 8 times the length of the string. The old width plays no part: the
  same holds right after a manual resize to any size. Fields with another id keep their value,
  and the collection keeps its length.
\<close>

theorem text_auto_grow:
  assumes "i < length (textFields s)"
  shows
    "width (textFields (text_onChange (textFields s ! i) newText s) ! i) =
       max 200 (real (length newText) * 8) \<and>
     (\<not> isReadOnly s \<longrightarrow>
        width (textFields (ui_step ev (TextChange i newText) (ui_step ev (TextResize i sz) s)) ! i) =
          max 200 (real (length newText) * 8)) \<and>
     (\<forall>j < length (textFields s). id_str (textFields s ! j) \<noteq> id_str (textFields s ! i) \<longrightarrow>
        textFields (text_onChange (textFields s ! i) newText s) ! j = textFields s ! j) \<and>
     length (textFields (text_onChange (textFields s ! i) newText s)) = length (textFields s)"
proof -
  have direct: "width (textFields (text_onChange (textFields s' ! i) newText s') ! i) =
       max 200 (real (length newText) * 8)" if "i < length (textFields s')" for s'
    using that by (simp add: text_onChange_fields)
  have after: "width (textFields (ui_step ev (TextChange i newText) (ui_step ev (TextResize i sz) s)) ! i) =
          max 200 (real (length newText) * 8)" if ro: "\<not> isReadOnly s"
  proof -
    let ?s1 = "text_onResize (textFields s ! i) sz s"
    have s1: "ui_step ev (TextResize i sz) s = ?s1" using assms ro by simp
    have len: "i < length (textFields ?s1)" using assms by (simp add: text_onResize_fields)
    have "ui_step ev (TextChange i newText) ?s1 = text_onChange (textFields ?s1 ! i) newText ?s1"
      using len ro by (simp add: text_onResize_fields)
    then have s2: "ui_step ev (TextChange i newText) (ui_step ev (TextResize i sz) s) =
        text_onChange (textFields ?s1 ! i) newText ?s1"
      by (simp only: s1)
    show ?thesis unfolding s2 by (rule direct [OF len])
  qed
  have others: "\<forall>j < length (textFields s). id_str (textFields s ! j) \<noteq> id_str (textFields s ! i) \<longrightarrow>
        textFields (text_onChange (textFields s ! i) newText s) ! j = textFields s ! j"
    by (simp add: text_onChange_fields)
  from direct [OF assms] after others show ?thesis by (simp add: text_onChange_others)
qed

theorem text_auto_grow_witness:
  "width (textFields (text_onChange (textFields example_state ! 1) ''Augusta Ada King, Countess of Lovelace''
       example_state) ! 1) = 304 \<and>
   width (textFields (text_onChange (textFields example_state ! 1) ''Ada'' example_state) ! 1) = 200 \<and>
   width (textFields (ui_step example_env (TextChange 1 ''Ada'')
       (ui_step example_env (TextResize 1 (900, 90)) example_state)) ! 1) = 200 \<and>
   textFields (text_onChange (textFields example_state ! 1) ''Ada'' example_state) ! 0 = example_text_1"
proof -
  have len: "1 < length (textFields example_state)" "0 < length (textFields example_state)"
    and ro: "\<not> isReadOnly example_state"
    and ids: "id_str (textFields example_state ! 0) \<noteq> id_str (textFields example_state ! 1)"
    and t0: "textFields example_state ! 0 = example_text_1"
    by (simp_all add: example_state_def example_text_1_def example_text_2_def)
  note long = text_auto_grow [OF len(1), where newText = "''Augusta Ada King, Countess of Lovelace''"
      and ev = example_env and sz = "(900, 90)"]
  note short = text_auto_grow [OF len(1), where newText = "''Ada''" and ev = example_env
      and sz = "(900, 90)"]
  have a: "width (textFields (text_onChange (textFields example_state ! 1)
      ''Augusta Ada King, Countess of Lovelace'' example_state) ! 1) = 304"
    using long [THEN conjunct1] by simp
  have b: "width (textFields (text_onChange (textFields example_state ! 1) ''Ada'' example_state) ! 1) = 200"
    using short [THEN conjunct1] by simp
  have c: "width (textFields (ui_step example_env (TextChange 1 ''Ada'')
       (ui_step example_env (TextResize 1 (900, 90)) example_state)) ! 1) = 200"
    using short [THEN conjunct2, THEN conjunct1, rule_format, OF ro] by simp
  have d: "textFields (text_onChange (textFields example_state ! 1) ''Ada'' example_state) ! 0 = example_text_1"
    using short [THEN conjunct2, THEN conjunct2, THEN conjunct1, rule_format, OF len(2) ids] t0
    by simp
  from a b c d show ?thesis by simp
qed

subsection \<open>A read-only session\<close>

text \<open>
  What read-only does suppress: every event other than the two resizes leaves the whole state
  as it was. The \<open>Draggable\<close> elements and the inputs are disabled, and the mode, delete, clear,
  upload, save and submit controls are not rendered.
\<close>

lemma read_only_other_events:
  assumes "isReadOnly s"
  shows "ui_step ev (PageClick e pageNum) s = s"
    and "ui_step ev (TextDragStop i data) s = s"
    and "ui_step ev (SignatureDragStop i data) s = s"
    and "ui_step ev (TextDelete i) s = s"
    and "ui_step ev (SignatureDelete i) s = s"
    and "ui_step ev (TextChange i newText) s = s"
    and "ui_step ev AddTextButton s = s"
    and "ui_step ev AddSignatureButton s = s"
    and "ui_step ev (FullNameInput v) s = s"
    and "ui_step ev ClearCanvasButton s = s"
    and "ui_step ev ClearUploadedButton s = s"
    and "ui_step ev (SignatureFileInput chosen) s = s"
    and "ui_step ev (SaveDraftButton resp) s = s"
    and "ui_step ev (SubmitButton confirmed resp) s = s"
  using assms by (simp_all add: handlePageClick_def)

text \<open>
  Claim C2 asks that in a read-only session drag, resize, delete, save and submit leave the
  annotation model as it was. Drag, delete, save and submit do (\<open>read_only_other_events\<close>),
  but resize does not: the \<open>disabled\<close> the source passes to \<open>Resizable\<close> has no effect, and the
  handler does not test \<open>isReadOnly\<close>. In the read-only example state, at zoom 200%, dragging
  the handle of the signature to 240 by 200 pixels stores 120 by 120 in place of 100 by 100,
  and dragging the handle of the first text field to 500 by 100 pixels stores 250 by 50 in
  place of 200 by 30. No request is sent.
\<close>

theorem read_only_resize_changes_model:
  "isReadOnly (example_state\<lparr>isReadOnly := True\<rparr>) \<and>
   signatures (example_state\<lparr>isReadOnly := True\<rparr>) = [example_signature] \<and>
   signatures (ui_step example_env (SignatureResize 0 (240, 200)) (example_state\<lparr>isReadOnly := True\<rparr>)) =
     [example_signature\<lparr>width := 120, height := 120\<rparr>] \<and>
   textFields (example_state\<lparr>isReadOnly := True\<rparr>) = [example_text_1, example_text_2] \<and>
   textFields (ui_step example_env (TextResize 0 (500, 100)) (example_state\<lparr>isReadOnly := True\<rparr>)) =
     [example_text_1\<lparr>width := 250, height := 50\<rparr>, example_text_2] \<and>
   requests (ui_step example_env (SignatureResize 0 (240, 200)) (example_state\<lparr>isReadOnly := True\<rparr>)) = [] \<and>
   requests (ui_step example_env (TextResize 0 (500, 100)) (example_state\<lparr>isReadOnly := True\<rparr>)) = []"
proof -
  let ?r = "example_state\<lparr>isReadOnly := True\<rparr>"
  have c: "constrained (MIN_SIGNATURE_WIDTH * scale ?r, MIN_SIGNATURE_HEIGHT * scale ?r)
      (MAX_SIGNATURE_WIDTH * scale ?r, MAX_SIGNATURE_HEIGHT * scale ?r) (240, 200) = (240, 200)"
    by (simp add: constrained_def example_state_def MAX_SIGNATURE_WIDTH_def MAX_SIGNATURE_HEIGHT_def
        MIN_SIGNATURE_WIDTH_def MIN_SIGNATURE_HEIGHT_def)
  have l: "locked_size example_signature (240, 200) 2 = (120, 120)"
    by (simp add: locked_size_def Let_def example_signature_def)
  have sg: "signatures (ui_step example_env (SignatureResize 0 (240, 200)) ?r) =
      [example_signature\<lparr>width := 120, height := 120\<rparr>]"
    "requests (ui_step example_env (SignatureResize 0 (240, 200)) ?r) = []"
    using c
    by (simp_all add: example_state_def signature_onResize_def l updateSignature_def
        spread_Signature_def spread_Annotation_def no_Signature_updates_def override_def)
  have tf: "textFields (ui_step example_env (TextResize 0 (500, 100)) ?r) =
      [example_text_1\<lparr>width := 250, height := 50\<rparr>, example_text_2]"
    "requests (ui_step example_env (TextResize 0 (500, 100)) ?r) = []"
    by (simp_all add: example_state_def text_onResize_def updateTextField_def spread_TextField_def
        spread_Annotation_def no_TextField_updates_def override_def example_text_1_def
        example_text_2_def)
  show ?thesis using sg tf by (simp add: example_state_def)
qed

theorem read_only_resize_changes_model_witness:
  "signatures (ui_step example_env (SignatureResize 0 (240, 200)) (example_state\<lparr>isReadOnly := True\<rparr>)) \<noteq>
     signatures (example_state\<lparr>isReadOnly := True\<rparr>) \<and>
   textFields (ui_step example_env (TextResize 0 (500, 100)) (example_state\<lparr>isReadOnly := True\<rparr>)) \<noteq>
     textFields (example_state\<lparr>isReadOnly := True\<rparr>)"
proof -
  note t = read_only_resize_changes_model
  have a: "signatures (example_state\<lparr>isReadOnly := True\<rparr>) = [example_signature]"
    and b: "signatures (ui_step example_env (SignatureResize 0 (240, 200))
        (example_state\<lparr>isReadOnly := True\<rparr>)) = [example_signature\<lparr>width := 120, height := 120\<rparr>]"
    and c: "textFields (example_state\<lparr>isReadOnly := True\<rparr>) = [example_text_1, example_text_2]"
    and d: "textFields (ui_step example_env (TextResize 0 (500, 100))
        (example_state\<lparr>isReadOnly := True\<rparr>)) = [example_text_1\<lparr>width := 250, height := 50\<rparr>, example_text_2]"
    using t by blast+
  show ?thesis
    unfolding a b c d by (simp add: example_signature_def example_text_1_def)
qed

subsection \<open>Signature placement without an artifact\<close>

lemma some_indexed_iff:
  "some_indexed p k xs \<longleftrightarrow> (\<exists>i<length xs. p (xs ! i) (k + i))"
proof (induction xs arbitrary: k)
  case Nil
  show ?case by simp
next
  case (Cons a xs)
  have "(\<exists>i<Suc (length xs). p ((a # xs) ! i) (k + i)) \<longleftrightarrow>
      p a k \<or> (\<exists>i<length xs. p (xs ! i) (Suc k + i))"
    by (auto simp: less_Suc_eq_0_disj)
  then show ?case using Cons.IH [of "Suc k"] by simp
qed

lemma hasContent_iff:
  "hasContent data \<longleftrightarrow> (\<exists>i<length data. i mod 4 = 3 \<and> data ! i > 0)"
  by (simp add: hasContent_def some_indexed_iff)

lemma placeSignature_falsy:
  "falsy ip \<Longrightarrow> placeSignature ev pageNum x y ip s = s\<lparr>alerts := alerts s @ [NoSignatureArtifact]\<rparr>"
  by (auto simp: placeSignature_def falsy_def split: option.splits)

lemma addSignature_no_artifact:
  assumes "falsy (signatureImage s)"
    and "\<forall>data. signatureCanvas s = Some data \<longrightarrow> (\<forall>i<length data. i mod 4 = 3 \<longrightarrow> data ! i = 0)"
  shows "addSignature ev pageNum x y s = s\<lparr>alerts := alerts s @ [NoSignatureArtifact]\<rparr>"
proof (cases "signatureCanvas s")
  case None
  then show ?thesis using assms(1) by (simp add: addSignature_def placeSignature_falsy)
next
  case (Some data)
  with assms(2) have "\<not> hasContent data" by (simp add: hasContent_iff)
  then show ?thesis using Some assms(1) by (simp add: addSignature_def placeSignature_falsy)
qed

text \<open>
  Claim C4. With no uploaded signature path (\<open>signatureImage\<close> is \<open>null\<close> or empty) and no
  alpha byte other than zero on the canvas (or no canvas mounted), \<open>addSignature\<close> alerts
  \<open>NoSignatureArtifact\<close> and does nothing else: no signature is appended, no request is sent,
  the mode is what it was. A page click in signature mode that is not ignored is that call, so
  the mode stays \<open>signature\<close>.
\<close>

theorem signature_without_artifact:
  assumes "falsy (signatureImage s)"
    and "\<forall>data. signatureCanvas s = Some data \<longrightarrow> (\<forall>i<length data. i mod 4 = 3 \<longrightarrow> data ! i = 0)"
  shows
    "alerts (addSignature ev pageNum x y s) = alerts s @ [NoSignatureArtifact] \<and>
     signatures (addSignature ev pageNum x y s) = signatures s \<and>
     mode (addSignature ev pageNum x y s) = mode s \<and>
     requests (addSignature ev pageNum x y s) = requests s \<and>
     (\<not> isReadOnly s \<and> pdfReady s \<and> mode s = ModeSignature \<longrightarrow>
        alerts (handlePageClick ev e pageNum s) = alerts s @ [NoSignatureArtifact] \<and>
        signatures (handlePageClick ev e pageNum s) = signatures s \<and>
        textFields (handlePageClick ev e pageNum s) = textFields s \<and>
        requests (handlePageClick ev e pageNum s) = requests s \<and>
        mode (handlePageClick ev e pageNum s) = ModeSignature)"
proof -
  note none = addSignature_no_artifact [OF assms]
  have "handlePageClick ev e pageNum s = s\<lparr>alerts := alerts s @ [NoSignatureArtifact]\<rparr>"
    if "\<not> isReadOnly s \<and> pdfReady s \<and> mode s = ModeSignature"
    using that by (simp add: handlePageClick_signature none)
  then show ?thesis by (simp add: none)
qed

theorem signature_without_artifact_witness:
  "alerts (handlePageClick example_env example_click 1 (example_state\<lparr>mode := ModeSignature\<rparr>)) =
     [NoSignatureArtifact] \<and>
   signatures (handlePageClick example_env example_click 1 (example_state\<lparr>mode := ModeSignature\<rparr>)) =
     [example_signature] \<and>
   mode (handlePageClick example_env example_click 1 (example_state\<lparr>mode := ModeSignature\<rparr>)) =
     ModeSignature \<and>
   requests (handlePageClick example_env example_click 1 (example_state\<lparr>mode := ModeSignature\<rparr>)) = []"
proof -
  let ?s = "example_state\<lparr>mode := ModeSignature\<rparr>"
  have no_path: "falsy (signatureImage ?s)" by (simp add: example_state_def falsy_def)
  have blank: "\<forall>data. signatureCanvas ?s = Some data \<longrightarrow>
      (\<forall>i<length data. i mod 4 = 3 \<longrightarrow> data ! i = 0)"
    by (auto simp: example_state_def nth_Cons' )
  have guard: "\<not> isReadOnly ?s \<and> pdfReady ?s \<and> mode ?s = ModeSignature"
    by (simp add: example_state_def)
  have vals: "alerts ?s = []" "signatures ?s = [example_signature]" "requests ?s = []"
    by (simp_all add: example_state_def)
  from signature_without_artifact [OF no_path blank, of example_env 1 _ _ example_click] guard vals
  show ?thesis by simp
qed

subsection \<open>Saving a draft\<close>

text \<open>
  Claim C5. \<open>handleSaveDraft\<close> posts, to the draft endpoint of the document, a body with the
  two keys \<open>textFields\<close> and \<open>signatures\<close> that holds one record for every annotation of
  the state, in order; a record has the persisted fields and neither \<open>id\<close> nor \<open>imageUrl\<close>.
  Saving changes neither collection, so a second save posts the same body, whatever the
  answers of the server; a store that overwrites the draft of the document with each body is the same after
  the second request as after the first.
\<close>

theorem save_draft_idempotent:
  "requests (handleSaveDraft r1 s) = requests s @ [PostDraft (documentId s) (annotations_json s)] \<and>
   requests (handleSaveDraft r2 (handleSaveDraft r1 s)) =
     requests s @ [PostDraft (documentId s) (annotations_json s),
                   PostDraft (documentId s) (annotations_json s)] \<and>
   textFields (handleSaveDraft r1 s) = textFields s \<and>
   signatures (handleSaveDraft r1 s) = signatures s \<and>
   annotations_json s =
     JObj [(''textFields'', JArr (map textField_json (textFields s))),
           (''signatures'', JArr (map signature_json (signatures s)))] \<and>
   textField_json tf =
     JObj [(''page_number'', JNum (real (page_number tf))),
           (''x_coordinate'', JNum (x_coordinate tf)),
           (''y_coordinate'', JNum (y_coordinate tf)),
           (''width'', JNum (width tf)),
           (''height'', JNum (height tf)),
           (''font_size'', JNum (font_size tf)),
           (''text_content'', JStr (text_content tf))] \<and>
   signature_json sg =
     JObj [(''page_number'', JNum (real (page_number sg))),
           (''x_coordinate'', JNum (x_coordinate sg)),
           (''y_coordinate'', JNum (y_coordinate sg)),
           (''width'', JNum (width sg)),
           (''height'', JNum (height sg)),
           (''signature_image_path'', JStr (signature_image_path sg))] \<and>
   ''id'' \<notin> set (json_keys (textField_json tf)) \<and>
   ''id'' \<notin> set (json_keys (signature_json sg)) \<and>
   ''imageUrl'' \<notin> set (json_keys (signature_json sg)) \<and>
   remote_store_after (PostDraft (documentId s) (annotations_json s))
       (remote_store_after (PostDraft (documentId s) (annotations_json s)) store) =
     remote_store_after (PostDraft (documentId s) (annotations_json s)) store \<and>
   remote_store_after (PostDraft (documentId s) (annotations_json s)) store (documentId s) =
     Some (annotations_json s)"
proof -
  have once: "requests (handleSaveDraft r s') = requests s' @ [PostDraft (documentId s') (annotations_json s')]"
    "textFields (handleSaveDraft r s') = textFields s'"
    "signatures (handleSaveDraft r s') = signatures s'"
    "documentId (handleSaveDraft r s') = documentId s'" for r s'
    by (simp_all add: handleSaveDraft_def Let_def split: response.splits)
  have body: "annotations_json (handleSaveDraft r1 s) = annotations_json s"
    by (simp add: annotations_json_def once)
  have twice: "requests (handleSaveDraft r2 (handleSaveDraft r1 s)) =
     requests s @ [PostDraft (documentId s) (annotations_json s),
                   PostDraft (documentId s) (annotations_json s)]"
    by (simp add: once body)
  have keys: "''id'' \<notin> set (json_keys (textField_json tf))"
    "''id'' \<notin> set (json_keys (signature_json sg))"
    "''imageUrl'' \<notin> set (json_keys (signature_json sg))"
    by (simp_all add: json_keys_def textField_json_def signature_json_def)
  have store: "remote_store_after (PostDraft d b) (remote_store_after (PostDraft d b) store) =
      remote_store_after (PostDraft d b) store"
    "remote_store_after (PostDraft d b) store d = Some b" for d b
    by (simp_all add: remote_store_after_def)
  show ?thesis
    using once(1-3) [of r1 s] twice keys store
    by (simp add: annotations_json_def textField_json_def signature_json_def)
qed

theorem save_draft_idempotent_witness:
  "requests (handleSaveDraft (Failed None) (handleSaveDraft (Ok ()) example_state)) =
     [PostDraft 7 (annotations_json example_state), PostDraft 7 (annotations_json example_state)] \<and>
   json_keys (textField_json example_text_1) =
     [''page_number'', ''x_coordinate'', ''y_coordinate'', ''width'', ''height'', ''font_size'',
      ''text_content''] \<and>
   json_keys (signature_json example_signature) =
     [''page_number'', ''x_coordinate'', ''y_coordinate'', ''width'', ''height'',
      ''signature_image_path'']"
proof -
  have vals: "requests example_state = []" "documentId example_state = 7"
    by (simp_all add: example_state_def)
  from save_draft_idempotent [of "Ok ()" example_state "Failed None" example_text_1 example_signature]
    vals
  show ?thesis by (simp add: json_keys_def)
qed

subsection \<open>Validation of an uploaded image\<close>

lemma handleSignatureUpload_too_large:
  "MAX_FILE_SIZE < file_size f \<Longrightarrow>
   handleSignatureUpload ev (Some f) s = reject_upload (FileTooLarge (file_size f)) s"
  by (simp add: handleSignatureUpload_def)

lemma handleSignatureUpload_bad_type:
  "file_size f \<le> MAX_FILE_SIZE \<Longrightarrow> file_type f \<notin> set validTypes \<Longrightarrow>
   handleSignatureUpload ev (Some f) s = reject_upload InvalidImageType s"
  by (simp add: handleSignatureUpload_def)

lemma handleSignatureUpload_undecoded:
  "file_size f \<le> MAX_FILE_SIZE \<Longrightarrow> file_type f \<in> set validTypes \<Longrightarrow> decoded f = None \<Longrightarrow>
   handleSignatureUpload ev (Some f) s = reject_upload ImageLoadFailed s"
  by (simp add: handleSignatureUpload_def)

lemma handleSignatureUpload_too_big:
  "file_size f \<le> MAX_FILE_SIZE \<Longrightarrow> file_type f \<in> set validTypes \<Longrightarrow> decoded f = Some (w, h) \<Longrightarrow>
   2000 < w \<or> 2000 < h \<Longrightarrow>
   handleSignatureUpload ev (Some f) s = reject_upload (ImageTooLarge w h) s"
  by (simp add: handleSignatureUpload_def)

lemma handleSignatureUpload_upload_failed:
  "file_size f \<le> MAX_FILE_SIZE \<Longrightarrow> file_type f \<in> set validTypes \<Longrightarrow> decoded f = Some (w, h) \<Longrightarrow>
   w \<le> 2000 \<Longrightarrow> h \<le> 2000 \<Longrightarrow> uploadResponse ev = Failed msg \<Longrightarrow>
   handleSignatureUpload ev (Some f) s =
     reject_upload (error_alert msg FailedToUpload)
       (s\<lparr>requests := requests s @ [PostSignatureUpload (UploadedFile (file_size f) (file_type f))]\<rparr>)"
  by (simp add: handleSignatureUpload_def Let_def)

lemma handleSignatureUpload_success:
  "file_size f \<le> MAX_FILE_SIZE \<Longrightarrow> file_type f \<in> set validTypes \<Longrightarrow> decoded f = Some (w, h) \<Longrightarrow>
   w \<le> 2000 \<Longrightarrow> h \<le> 2000 \<Longrightarrow> uploadResponse ev = Ok path \<Longrightarrow>
   handleSignatureUpload ev (Some f) s =
     s\<lparr>requests := requests s @ [PostSignatureUpload (UploadedFile (file_size f) (file_type f)),
                                 GetSignatureImage (signature_filename path)],
       signatureImage := Some path\<rparr>"
  by (simp add: handleSignatureUpload_def Let_def loadSignatureImage_def split: response.splits)

lemma handleSignatureUpload_model:
  "textFields (handleSignatureUpload ev chosen s) = textFields s"
  "signatures (handleSignatureUpload ev chosen s) = signatures s"
  by (auto simp: handleSignatureUpload_def reject_upload_def Let_def loadSignatureImage_def
      split: option.splits response.splits prod.splits)

text \<open>
  Claim C7 as stated fails on a file that breaks two rules: a GIF of 6 MB has a type other
  than PNG or JPEG, and the upload fails with \<open>FileTooLarge\<close>, not with \<open>InvalidImageType\<close>: the
  size is tested first.
\<close>

theorem upload_validation_counterexample:
  "file_type example_gif_6mb \<notin> set validTypes \<and>
   alerts (handleSignatureUpload example_env (Some example_gif_6mb) example_state) =
     [FileTooLarge (6 * 1024 * 1024)] \<and>
   InvalidImageType \<notin> set (alerts (handleSignatureUpload example_env (Some example_gif_6mb) example_state))"
  by (simp add: handleSignatureUpload_def reject_upload_def example_gif_6mb_def example_state_def
      MAX_FILE_SIZE_def validTypes_def)

text \<open>
  Claim C7, amended. The checks run in the order size, type, pixel dimensions, and the first
  that fails decides the error: a size above 5 MB fails with \<open>FileTooLarge\<close>; otherwise a
  type other than \<open>image/png\<close>, \<open>image/jpeg\<close> and \<open>image/jpg\<close> fails with
  \<open>InvalidImageType\<close>; otherwise a width or a height above 2000 fails with \<open>ImageTooLarge\<close>,
  and an image that does not load fails too. Each of these only alerts and clears the file
  input. When the upload request fails the active signature source stays as well; when it
  succeeds the returned path becomes the active signature source. The two collections are
  never touched.
\<close>

theorem signature_upload_validation:
  "(5 * 1024 * 1024 < file_size f \<longrightarrow>
      handleSignatureUpload ev (Some f) s =
        s\<lparr>alerts := alerts s @ [FileTooLarge (file_size f)], fileInputValue := []\<rparr>) \<and>
   (file_size f \<le> 5 * 1024 * 1024 \<and>
    file_type f \<notin> {''image/png'', ''image/jpeg'', ''image/jpg''} \<longrightarrow>
      handleSignatureUpload ev (Some f) s =
        s\<lparr>alerts := alerts s @ [InvalidImageType], fileInputValue := []\<rparr>) \<and>
   (file_size f \<le> 5 * 1024 * 1024 \<and>
    file_type f \<in> {''image/png'', ''image/jpeg'', ''image/jpg''} \<and>
    decoded f = Some (w, h) \<and> (2000 < w \<or> 2000 < h) \<longrightarrow>
      handleSignatureUpload ev (Some f) s =
        s\<lparr>alerts := alerts s @ [ImageTooLarge w h], fileInputValue := []\<rparr>) \<and>
   (file_size f \<le> 5 * 1024 * 1024 \<and>
    file_type f \<in> {''image/png'', ''image/jpeg'', ''image/jpg''} \<and>
    decoded f = None \<longrightarrow>
      handleSignatureUpload ev (Some f) s =
        s\<lparr>alerts := alerts s @ [ImageLoadFailed], fileInputValue := []\<rparr>) \<and>
   (file_size f \<le> 5 * 1024 * 1024 \<and>
    file_type f \<in> {''image/png'', ''image/jpeg'', ''image/jpg''} \<and>
    decoded f = Some (w, h) \<and> w \<le> 2000 \<and> h \<le> 2000 \<and> uploadResponse ev = Failed msg \<longrightarrow>
      signatureImage (handleSignatureUpload ev (Some f) s) = signatureImage s \<and>
      alerts (handleSignatureUpload ev (Some f) s) = alerts s @ [error_alert msg FailedToUpload]) \<and>
   (file_size f \<le> 5 * 1024 * 1024 \<and>
    file_type f \<in> {''image/png'', ''image/jpeg'', ''image/jpg''} \<and>
    decoded f = Some (w, h) \<and> w \<le> 2000 \<and> h \<le> 2000 \<and> uploadResponse ev = Ok path \<longrightarrow>
      signatureImage (handleSignatureUpload ev (Some f) s) = Some path \<and>
      alerts (handleSignatureUpload ev (Some f) s) = alerts s) \<and>
   textFields (handleSignatureUpload ev chosen s) = textFields s \<and>
   signatures (handleSignatureUpload ev chosen s) = signatures s"
proof -
  have mx: "MAX_FILE_SIZE = 5 * 1024 * 1024" by (simp add: MAX_FILE_SIZE_def)
  have ty: "set validTypes = {''image/png'', ''image/jpeg'', ''image/jpg''}"
    by (simp add: validTypes_def)
  show ?thesis
    using handleSignatureUpload_too_large [of f ev s] handleSignatureUpload_bad_type [of f ev s]
      handleSignatureUpload_too_big [of f w h ev s] handleSignatureUpload_undecoded [of f ev s]
      handleSignatureUpload_upload_failed [of f w h ev msg s]
      handleSignatureUpload_success [of f w h ev path s]
      handleSignatureUpload_model [of ev chosen s]
    unfolding mx ty
    by (simp add: reject_upload_def)
qed

theorem signature_upload_validation_witness:
  "alerts (handleSignatureUpload example_env (Some example_png_6mb) example_state) =
     [FileTooLarge (6 * 1024 * 1024)] \<and>
   signatureImage (handleSignatureUpload example_env (Some example_png_6mb) example_state) = None \<and>
   alerts (handleSignatureUpload example_env (Some (example_png_300x150\<lparr>file_type := ''image/gif''\<rparr>))
      example_state) = [InvalidImageType] \<and>
   alerts (handleSignatureUpload example_env (Some example_png_2500) example_state) =
     [ImageTooLarge 2500 2500] \<and>
   signatureImage (handleSignatureUpload example_env (Some example_png_2500) example_state) = None \<and>
   signatureImage (handleSignatureUpload example_env (Some example_png_300x150) example_state) =
     Some ''uploads/signatures/b.png'' \<and>
   textFields (handleSignatureUpload example_env (Some example_png_300x150) example_state) =
     [example_text_1, example_text_2] \<and>
   alerts (handleSignatureUpload example_env (Some (example_png_300x150\<lparr>decoded := None\<rparr>))
      example_state) = [ImageLoadFailed] \<and>
   alerts (handleSignatureUpload (example_env\<lparr>uploadResponse := Failed (Some ''disk full'')\<rparr>)
      (Some example_png_300x150) example_state) = [ServerError ''disk full''] \<and>
   signatureImage (handleSignatureUpload (example_env\<lparr>uploadResponse := Failed (Some ''disk full'')\<rparr>)
      (Some example_png_300x150) example_state) = None"
proof -
  let ?gif = "example_png_300x150\<lparr>file_type := ''image/gif''\<rparr>"
  let ?broken = "example_png_300x150\<lparr>decoded := None\<rparr>"
  let ?down = "example_env\<lparr>uploadResponse := Failed (Some ''disk full'')\<rparr>"
  have broken: "file_size ?broken \<le> 5 * 1024 * 1024 \<and>
      file_type ?broken \<in> {''image/png'', ''image/jpeg'', ''image/jpg''} \<and> decoded ?broken = None"
    by (simp add: example_png_300x150_def)
  have down: "file_size example_png_300x150 \<le> 5 * 1024 * 1024 \<and>
      file_type example_png_300x150 \<in> {''image/png'', ''image/jpeg'', ''image/jpg''} \<and>
      decoded example_png_300x150 = Some (300, 150) \<and> (300::nat) \<le> 2000 \<and> (150::nat) \<le> 2000 \<and>
      uploadResponse ?down = Failed (Some ''disk full'')"
    by (simp add: example_png_300x150_def)
  have st: "alerts example_state = []" "signatureImage example_state = None"
    "textFields example_state = [example_text_1, example_text_2]"
    by (simp_all add: example_state_def)
  have big: "5 * 1024 * 1024 < file_size example_png_6mb"
    by (simp add: example_png_6mb_def)
  have gif: "file_size ?gif \<le> 5 * 1024 * 1024 \<and>
      file_type ?gif \<notin> {''image/png'', ''image/jpeg'', ''image/jpg''}"
    by (simp add: example_png_300x150_def)
  have wide: "file_size example_png_2500 \<le> 5 * 1024 * 1024 \<and>
      file_type example_png_2500 \<in> {''image/png'', ''image/jpeg'', ''image/jpg''} \<and>
      decoded example_png_2500 = Some (2500, 2500) \<and> (2000 < (2500::nat) \<or> 2000 < (2500::nat))"
    by (simp add: example_png_2500_def)
  have good: "file_size example_png_300x150 \<le> 5 * 1024 * 1024 \<and>
      file_type example_png_300x150 \<in> {''image/png'', ''image/jpeg'', ''image/jpg''} \<and>
      decoded example_png_300x150 = Some (300, 150) \<and> (300::nat) \<le> 2000 \<and> (150::nat) \<le> 2000 \<and>
      uploadResponse example_env = Ok ''uploads/signatures/b.png''"
    by (simp add: example_png_300x150_def example_env_def)
  note v = signature_upload_validation
  have a: "handleSignatureUpload example_env (Some example_png_6mb) example_state =
      example_state\<lparr>alerts := alerts example_state @ [FileTooLarge (file_size example_png_6mb)],
        fileInputValue := []\<rparr>"
    using v [where f = example_png_6mb and ev = example_env and s = example_state,
        THEN conjunct1, rule_format, OF big] .
  have b: "handleSignatureUpload example_env (Some ?gif) example_state =
      example_state\<lparr>alerts := alerts example_state @ [InvalidImageType], fileInputValue := []\<rparr>"
    using v [where f = ?gif and ev = example_env and s = example_state,
        THEN conjunct2, THEN conjunct1, rule_format, OF gif] .
  have c: "handleSignatureUpload example_env (Some example_png_2500) example_state =
      example_state\<lparr>alerts := alerts example_state @ [ImageTooLarge 2500 2500], fileInputValue := []\<rparr>"
    using v [where f = example_png_2500 and ev = example_env and s = example_state
        and w = 2500 and h = 2500,
        THEN conjunct2, THEN conjunct2, THEN conjunct1, rule_format, OF wide] .
  have d: "signatureImage (handleSignatureUpload example_env (Some example_png_300x150) example_state) =
      Some ''uploads/signatures/b.png''"
    using v [where f = example_png_300x150 and ev = example_env and s = example_state
        and w = 300 and h = 150 and path = "''uploads/signatures/b.png''",
        THEN conjunct2, THEN conjunct2, THEN conjunct2, THEN conjunct2, THEN conjunct2,
        THEN conjunct1, rule_format, OF good]
    by simp
  have e: "textFields (handleSignatureUpload example_env (Some example_png_300x150) example_state) =
      [example_text_1, example_text_2]"
    using v [where chosen = "Some example_png_300x150" and ev = example_env and s = example_state] st(3)
    by simp
  have f: "handleSignatureUpload example_env (Some ?broken) example_state =
      example_state\<lparr>alerts := alerts example_state @ [ImageLoadFailed], fileInputValue := []\<rparr>"
    using v [where f = ?broken and ev = example_env and s = example_state,
        THEN conjunct2, THEN conjunct2, THEN conjunct2, THEN conjunct1, rule_format, OF broken] .
  have g: "signatureImage (handleSignatureUpload ?down (Some example_png_300x150) example_state) =
        signatureImage example_state \<and>
      alerts (handleSignatureUpload ?down (Some example_png_300x150) example_state) =
        alerts example_state @ [error_alert (Some ''disk full'') FailedToUpload]"
    using v [where f = example_png_300x150 and ev = ?down and s = example_state
        and w = 300 and h = 150 and msg = "Some ''disk full''",
        THEN conjunct2, THEN conjunct2, THEN conjunct2, THEN conjunct2, THEN conjunct1,
        rule_format, OF down] .
  show ?thesis
    unfolding a b c f using d e g st by (simp add: example_png_6mb_def error_alert_def)
qed

subsection \<open>The size of a placed signature\<close>

lemma getImageDimensions_steps:
  fixes iw ih :: nat
  defines "r \<equiv> real iw / real ih"
  defines "p1 \<equiv> (if real iw > 250 then (250, 250 / r) else (real iw, real ih))"
  defines "p2 \<equiv> (if snd p1 > 100 then (100 * r, 100) else p1)"
  defines "p3 \<equiv> (if fst p2 < 80 then (80, 80 / r) else p2)"
  defines "p4 \<equiv> (if snd p3 < 30 then (30 * r, 30) else p3)"
  shows "getImageDimensions (iw, ih) = p4"
  by (simp add: getImageDimensions_def Let_def case_prod_beta p4_def p3_def p2_def p1_def r_def
      MAX_SIGNATURE_WIDTH_def MAX_SIGNATURE_HEIGHT_def MIN_SIGNATURE_WIDTH_def MIN_SIGNATURE_HEIGHT_def)

lemma auto_size_chain:
  fixes r w0 h0 :: real
  assumes r: "0 < r" and h0: "0 < h0" and w0: "w0 = r * h0"
  defines "p1 \<equiv> (if w0 > 250 then (250, 250 / r) else (w0, h0))"
  defines "p2 \<equiv> (if snd p1 > 100 then (100 * r, 100) else p1)"
  defines "p3 \<equiv> (if fst p2 < 80 then (80, 80 / r) else p2)"
  defines "p4 \<equiv> (if snd p3 < 30 then (30 * r, 30) else p3)"
  shows "fst p4 = r * snd p4" and "0 < snd p4" and "80 \<le> fst p4" and "30 \<le> snd p4"
    and "(fst p4 \<le> 250 \<and> snd p4 \<le> 100) \<longleftrightarrow> (4 / 5 \<le> r \<and> r \<le> 25 / 3)"
    and "80 \<le> w0 \<and> w0 \<le> 250 \<and> 30 \<le> h0 \<and> h0 \<le> 100 \<longrightarrow> p4 = (w0, h0)"
proof -
  have i1: "fst p1 = r * snd p1" "0 < snd p1" "fst p1 \<le> 250"
    using r h0 w0 by (auto simp: p1_def)
  have i2: "fst p2 = r * snd p2" "0 < snd p2" "snd p2 \<le> 100"
    using r i1 by (auto simp: p2_def)
  have b2: "fst p2 \<le> 250"
  proof (cases "snd p1 > 100")
    case True
    then have "r * 100 < r * snd p1" using r by simp
    then show ?thesis using True i1 by (simp add: p2_def)
  next
    case False
    then show ?thesis using i1 by (simp add: p2_def)
  qed
  have i3: "fst p3 = r * snd p3" "0 < snd p3" "80 \<le> fst p3" "fst p3 \<le> 250"
    using r i2 b2 by (auto simp: p3_def)
  have b3: "snd p3 \<le> 100" if "4 / 5 \<le> r"
  proof (cases "fst p2 < 80")
    case True
    have "80 \<le> 100 * r" using that by simp
    then have "80 / r \<le> 100" using r by (simp add: field_simps)
    then show ?thesis using True by (simp add: p3_def)
  next
    case False
    then show ?thesis using i2 by (simp add: p3_def)
  qed
  show i4: "fst p4 = r * snd p4" and pos4: "0 < snd p4" and lo4: "30 \<le> snd p4"
    using r i3 by (auto simp: p4_def)
  show w4: "80 \<le> fst p4"
  proof (cases "snd p3 < 30")
    case True
    then have "r * snd p3 < r * 30" using r by simp
    then show ?thesis using True i3 by (simp add: p4_def mult.commute)
  next
    case False
    then show ?thesis using i3 by (simp add: p4_def)
  qed
  show "(fst p4 \<le> 250 \<and> snd p4 \<le> 100) \<longleftrightarrow> (4 / 5 \<le> r \<and> r \<le> 25 / 3)"
  proof
    assume hi: "fst p4 \<le> 250 \<and> snd p4 \<le> 100"
    have "r * 30 \<le> r * snd p4" using lo4 r by simp
    then have "r * 30 \<le> 250" using hi i4 by simp
    moreover have "r * snd p4 \<le> r * 100" using hi r by simp
    then have "80 \<le> r * 100" using w4 i4 by simp
    ultimately show "4 / 5 \<le> r \<and> r \<le> 25 / 3" by simp
  next
    assume rr: "4 / 5 \<le> r \<and> r \<le> 25 / 3"
    then have s3: "snd p3 \<le> 100" using b3 by simp
    have "30 * r \<le> 250" using rr by simp
    then show "fst p4 \<le> 250 \<and> snd p4 \<le> 100"
      using s3 i3 by (auto simp: p4_def)
  qed
  show "80 \<le> w0 \<and> w0 \<le> 250 \<and> 30 \<le> h0 \<and> h0 \<le> 100 \<longrightarrow> p4 = (w0, h0)"
    by (simp add: p4_def p3_def p2_def p1_def)
qed

lemma getImageDimensions_facts:
  assumes "0 < iw" "0 < ih"
  shows "fst (getImageDimensions (iw, ih)) = (real iw / real ih) * snd (getImageDimensions (iw, ih))"
    and "0 < snd (getImageDimensions (iw, ih))"
    and "80 \<le> fst (getImageDimensions (iw, ih))"
    and "30 \<le> snd (getImageDimensions (iw, ih))"
    and "(fst (getImageDimensions (iw, ih)) \<le> 250 \<and> snd (getImageDimensions (iw, ih)) \<le> 100) \<longleftrightarrow>
           (4 / 5 \<le> real iw / real ih \<and> real iw / real ih \<le> 25 / 3)"
    and "80 \<le> iw \<and> iw \<le> 250 \<and> 30 \<le> ih \<and> ih \<le> 100 \<longrightarrow>
           getImageDimensions (iw, ih) = (real iw, real ih)"
proof -
  have r: "0 < real iw / real ih" and h: "0 < real ih" and w: "real iw = real iw / real ih * real ih"
    using assms by simp_all
  note chain = auto_size_chain [OF r h w, folded getImageDimensions_steps]
  show "fst (getImageDimensions (iw, ih)) = (real iw / real ih) * snd (getImageDimensions (iw, ih))"
    and "0 < snd (getImageDimensions (iw, ih))"
    and "80 \<le> fst (getImageDimensions (iw, ih))"
    and "30 \<le> snd (getImageDimensions (iw, ih))"
    and "(fst (getImageDimensions (iw, ih)) \<le> 250 \<and> snd (getImageDimensions (iw, ih)) \<le> 100) \<longleftrightarrow>
           (4 / 5 \<le> real iw / real ih \<and> real iw / real ih \<le> 25 / 3)"
    using chain(1-5) by simp_all
  show "80 \<le> iw \<and> iw \<le> 250 \<and> 30 \<le> ih \<and> ih \<le> 100 \<longrightarrow>
           getImageDimensions (iw, ih) = (real iw, real ih)"
    using chain(6) by simp
qed


lemma placeSignature_placed:
  assumes "path \<noteq> []"
  shows "signatures (placeSignature ev p x y (Some path) s) =
      signatures s @
        [\<lparr>id_str = newId ev, page_number = p, x_coordinate = x, y_coordinate = y,
          width = fst (case imageDimensions ev of Some img \<Rightarrow> getImageDimensions img
                       | None \<Rightarrow> (150, 60)),
          height = snd (case imageDimensions ev of Some img \<Rightarrow> getImageDimensions img
                        | None \<Rightarrow> (150, 60)),
          signature_image_path = path,
          imageUrl = Some (fst (loadSignatureImage (imageResponse ev) path s))\<rparr>]"
    and "mode (placeSignature ev p x y (Some path) s) = ModeNone"
    and "activeField (placeSignature ev p x y (Some path) s) = Some (newId ev)"
  using assms
  by (simp_all add: placeSignature_def loadSignatureImage_def Let_def case_prod_beta
      DEFAULT_SIGNATURE_WIDTH_def DEFAULT_SIGNATURE_HEIGHT_def
      split: option.splits response.splits)

text \<open>
  Claim C6 as stated fails for an image whose aspect ratio no size of the clamp has: an
  image of 100 by 200 pixels is sized 80 by 160, and a signature placed from it is 160 high,
  above the maximum height of 100.
\<close>

theorem auto_size_counterexample:
  "getImageDimensions (100, 200) = (80, 160) \<and>
   MAX_SIGNATURE_HEIGHT < snd (getImageDimensions (100, 200)) \<and>
   height (last (signatures
     (handlePageClick (example_env\<lparr>imageDimensions := Some (100, 200)\<rparr>) example_click 1
        (example_state\<lparr>mode := ModeSignature, signatureImage := Some ''uploads/signatures/b.png''\<rparr>)))) = 160"
proof -
  have v: "getImageDimensions (100, 200) = (80, 160)"
    by (simp add: getImageDimensions_def Let_def MAX_SIGNATURE_WIDTH_def MAX_SIGNATURE_HEIGHT_def
        MIN_SIGNATURE_WIDTH_def MIN_SIGNATURE_HEIGHT_def)
  show ?thesis
    by (simp add: v MAX_SIGNATURE_HEIGHT_def handlePageClick_def addSignature_def Let_def
        example_state_def example_env_def falsy_def placeSignature_def loadSignatureImage_def)
qed

text \<open>
  Claim C6, amended. For an image of positive width and height, \<open>getImageDimensions\<close> keeps
  the aspect ratio of the image, and gives a width of at least 80 and a height of at least
  30. The size lies within the maximum footprint of 250 by 100 exactly when the aspect ratio
  of the image is between 4/5 and 25/3, the ratios that sizes of the clamp have. An image whose
  size is already within the clamp keeps it. The signature that \<open>addSignature\<close> appends has
  this size when the image loads, and 150 by 60 when it does not.
\<close>

theorem signature_auto_size:
  assumes "0 < iw" and "0 < ih"
  shows
    "fst (getImageDimensions (iw, ih)) / snd (getImageDimensions (iw, ih)) = real iw / real ih \<and>
     80 \<le> fst (getImageDimensions (iw, ih)) \<and>
     30 \<le> snd (getImageDimensions (iw, ih)) \<and>
     ((fst (getImageDimensions (iw, ih)) \<le> 250 \<and> snd (getImageDimensions (iw, ih)) \<le> 100) \<longleftrightarrow>
        (4 / 5 \<le> real iw / real ih \<and> real iw / real ih \<le> 25 / 3)) \<and>
     (80 \<le> iw \<and> iw \<le> 250 \<and> 30 \<le> ih \<and> ih \<le> 100 \<longrightarrow>
        getImageDimensions (iw, ih) = (real iw, real ih)) \<and>
     (path \<noteq> [] \<longrightarrow>
        signatures (placeSignature ev p x y (Some path) s) =
          signatures s @
            [\<lparr>id_str = newId ev, page_number = p, x_coordinate = x, y_coordinate = y,
              width = fst (case imageDimensions ev of Some img \<Rightarrow> getImageDimensions img
                           | None \<Rightarrow> (150, 60)),
              height = snd (case imageDimensions ev of Some img \<Rightarrow> getImageDimensions img
                            | None \<Rightarrow> (150, 60)),
              signature_image_path = path,
              imageUrl = Some (fst (loadSignatureImage (imageResponse ev) path s))\<rparr>])"
proof -
  note f = getImageDimensions_facts [OF assms]
  have "fst (getImageDimensions (iw, ih)) / snd (getImageDimensions (iw, ih)) = real iw / real ih"
    using f(1,2) by simp
  then show ?thesis
    using f(3-6) placeSignature_placed(1) [of path ev p x y s] by blast
qed

theorem signature_auto_size_witness:
  "getImageDimensions (300, 150) = (200, 100) \<and>
   fst (getImageDimensions (300, 150)) / snd (getImageDimensions (300, 150)) = 2 \<and>
   width (last (signatures (placeSignature example_env 1 50 100 (Some ''uploads/signatures/b.png'')
      example_state))) = 200 \<and>
   height (last (signatures (placeSignature example_env 1 50 100 (Some ''uploads/signatures/b.png'')
      example_state))) = 100 \<and>
   getImageDimensions (200, 50) = (200, 50) \<and>
   fst (getImageDimensions (300, 150)) \<le> 250 \<and>
   snd (getImageDimensions (300, 150)) \<le> 100"
proof -
  have pos: "0 < (300::nat)" "0 < (150::nat)" "0 < (200::nat)" "0 < (50::nat)" by simp_all
  have path: "''uploads/signatures/b.png'' \<noteq> []" by simp
  have v: "getImageDimensions (300, 150) = (200, 100)"
    by (simp add: getImageDimensions_def Let_def MAX_SIGNATURE_WIDTH_def MAX_SIGNATURE_HEIGHT_def
        MIN_SIGNATURE_WIDTH_def MIN_SIGNATURE_HEIGHT_def)
  have dims: "imageDimensions example_env = Some (300, 150)" by (simp add: example_env_def)
  note t = signature_auto_size [OF pos(1,2), where path = "''uploads/signatures/b.png''"
      and ev = example_env and p = 1 and x = 50 and y = 100 and s = example_state]
  note u = signature_auto_size [OF pos(3,4)]
  have a: "fst (getImageDimensions (300, 150)) / snd (getImageDimensions (300, 150)) = 2"
    using t [THEN conjunct1] by simp
  have b: "width (last (signatures (placeSignature example_env 1 50 100
        (Some ''uploads/signatures/b.png'') example_state))) = 200"
    "height (last (signatures (placeSignature example_env 1 50 100
        (Some ''uploads/signatures/b.png'') example_state))) = 100"
    using t path by (simp_all add: dims v)
  have c: "getImageDimensions (200, 50) = (200, 50)"
    using u by simp
  have d: "fst (getImageDimensions (300, 150)) \<le> 250 \<and> snd (getImageDimensions (300, 150)) \<le> 100"
    using t [THEN conjunct2, THEN conjunct2, THEN conjunct2, THEN conjunct1] by simp
  from v a b c d show ?thesis by simp
qed

subsection \<open>Resizing a signature\<close>

lemma locked_size_ratio:
  assumes "0 < width sg" "0 < height sg" "0 < sc" "0 < fst sz" "0 < snd sz"
  shows "fst (locked_size sg sz sc) / snd (locked_size sg sz sc) = width sg / height sg"
  using assms by (simp add: locked_size_def Let_def)

text \<open>
  Claim C3 asks that a resized signature keeps its aspect ratio and stays within the footprint
  of 80 to 250 by 30 to 100. \<open>onResize\<close> keeps the ratio (\<open>locked_size_ratio\<close>), but it
  recomputes one dimension from the other after the \<open>Resizable\<close> has applied
  \<open>minConstraints\<close> and \<open>maxConstraints\<close>, and nothing bounds the recomputed dimension. The
  square signature of the example (100 by 100, the size a 300 by 300 image is placed with) is
  shown at zoom 200%; dragging its handle to 500 by 200 pixels, which the constraints allow,
  stores 250 by 250: a height of 250, above the maximum of 100. The earlier variant of the
  handler stores 250 by 100 for the same gesture, and loses the aspect ratio.
\<close>

theorem signature_resize_exceeds_bounds:
  "getImageDimensions (300, 300) = (100, 100) \<and>
   constrained (MIN_SIGNATURE_WIDTH * scale example_state, MIN_SIGNATURE_HEIGHT * scale example_state)
     (MAX_SIGNATURE_WIDTH * scale example_state, MAX_SIGNATURE_HEIGHT * scale example_state) (500, 200) =
     (500, 200) \<and>
   signatures (ui_step example_env (SignatureResize 0 (500, 200)) example_state) =
     [example_signature\<lparr>width := 250, height := 250\<rparr>] \<and>
   MAX_SIGNATURE_HEIGHT < height (signatures (ui_step example_env (SignatureResize 0 (500, 200)) example_state) ! 0) \<and>
   signatures (signature_onResize_basic example_signature (500, 200) example_state) =
     [example_signature\<lparr>width := 250, height := 100\<rparr>]"
proof -
  have v: "getImageDimensions (300, 300) = (100, 100)"
    by (simp add: getImageDimensions_def Let_def MAX_SIGNATURE_WIDTH_def MAX_SIGNATURE_HEIGHT_def
        MIN_SIGNATURE_WIDTH_def MIN_SIGNATURE_HEIGHT_def)
  have c: "constrained (MIN_SIGNATURE_WIDTH * scale example_state, MIN_SIGNATURE_HEIGHT * scale example_state)
     (MAX_SIGNATURE_WIDTH * scale example_state, MAX_SIGNATURE_HEIGHT * scale example_state) (500, 200) =
     (500, 200)"
    by (simp add: constrained_def example_state_def MAX_SIGNATURE_WIDTH_def MAX_SIGNATURE_HEIGHT_def
        MIN_SIGNATURE_WIDTH_def MIN_SIGNATURE_HEIGHT_def)
  have l: "locked_size example_signature (500, 200) 2 = (250, 250)"
    by (simp add: locked_size_def Let_def example_signature_def)
  have r: "signatures (ui_step example_env (SignatureResize 0 (500, 200)) example_state) =
     [example_signature\<lparr>width := 250, height := 250\<rparr>]"
    using c
    by (simp add: example_state_def signature_onResize_def l updateSignature_def spread_Signature_def
        spread_Annotation_def no_Signature_updates_def override_def)
  have b: "signatures (signature_onResize_basic example_signature (500, 200) example_state) =
     [example_signature\<lparr>width := 250, height := 100\<rparr>]"
    by (simp add: example_state_def signature_onResize_basic_def updateSignature_def
        spread_Signature_def spread_Annotation_def no_Signature_updates_def override_def)
  show ?thesis using v c r b by (simp add: MAX_SIGNATURE_HEIGHT_def)
qed

theorem signature_resize_exceeds_bounds_witness:
  "\<not> height (signatures (ui_step example_env (SignatureResize 0 (500, 200)) example_state) ! 0)
      \<le> MAX_SIGNATURE_HEIGHT \<and>
   width (signatures (ui_step example_env (SignatureResize 0 (500, 200)) example_state) ! 0) /
     height (signatures (ui_step example_env (SignatureResize 0 (500, 200)) example_state) ! 0) =
     width example_signature / height example_signature"
proof -
  have r: "signatures (ui_step example_env (SignatureResize 0 (500, 200)) example_state) =
     [example_signature\<lparr>width := 250, height := 250\<rparr>]"
    using signature_resize_exceeds_bounds [THEN conjunct2, THEN conjunct2, THEN conjunct1] .
  show ?thesis
    unfolding r by (simp add: MAX_SIGNATURE_HEIGHT_def example_signature_def)
qed

subsection \<open>Further properties of the handlers\<close>

text \<open>
  The part of the resize of a signature that does hold: for a signature and a reported size
  of positive width and height, at a positive scale, the stored size has the aspect ratio the
  signature had; the width is taken as reported when its change is the larger one, and the
  height otherwise (also when the two changes are equal).
\<close>

theorem signature_resize_aspect_lock:
  assumes "0 < width sg" and "0 < height sg" and "0 < sc" and "0 < fst sz" and "0 < snd sz"
  shows
    "fst (locked_size sg sz sc) / snd (locked_size sg sz sc) = width sg / height sg \<and>
     (\<bar>fst sz / sc - width sg\<bar> > \<bar>snd sz / sc - height sg\<bar> \<longrightarrow>
        locked_size sg sz sc = (fst sz / sc, (fst sz / sc) / (width sg / height sg))) \<and>
     (\<bar>fst sz / sc - width sg\<bar> \<le> \<bar>snd sz / sc - height sg\<bar> \<longrightarrow>
        locked_size sg sz sc = ((snd sz / sc) * (width sg / height sg), snd sz / sc))"
  using locked_size_ratio [OF assms] by (simp add: locked_size_def Let_def)

theorem signature_resize_aspect_lock_witness:
  "locked_size example_signature (300, 180) 2 = (150, 150) \<and>
   locked_size (example_signature\<lparr>width := 200\<rparr>) (400, 120) 2 = (120, 60) \<and>
   fst (locked_size (example_signature\<lparr>width := 200\<rparr>) (400, 120) 2) /
     snd (locked_size (example_signature\<lparr>width := 200\<rparr>) (400, 120) 2) = 2"
proof -
  let ?wide = "example_signature\<lparr>width := 200\<rparr>"
  have p1: "0 < width example_signature" "0 < height example_signature" "0 < (2::real)"
    "0 < fst (300::real, 180::real)" "0 < snd (300::real, 180::real)"
    by (simp_all add: example_signature_def)
  have p2: "0 < width ?wide" "0 < height ?wide" "0 < fst (400::real, 120::real)"
    "0 < snd (400::real, 120::real)"
    by (simp_all add: example_signature_def)
  have a: "locked_size example_signature (300, 180) 2 = (150, 150)"
    using signature_resize_aspect_lock [OF p1] by (simp add: example_signature_def)
  have b: "locked_size ?wide (400, 120) 2 = (120, 60)"
    and c: "fst (locked_size ?wide (400, 120) 2) / snd (locked_size ?wide (400, 120) 2) = 2"
    using signature_resize_aspect_lock [OF p2(1,2) p1(3) p2(3,4)]
    by (simp_all add: example_signature_def)
  from a b c show ?thesis by simp
qed

text \<open>
  The two \<open>updateTextField\<close> calls of \<open>onChange\<close> map over the same captured list, so the
  second \<open>setTextFields\<close> drops the new content the first one set: after the handler the
  field has its old content and the new width.
\<close>

theorem text_change_keeps_content:
  assumes "i < length (textFields s)"
  shows
    "text_content (textFields (text_onChange (textFields s ! i) newText s) ! i) =
       text_content (textFields s ! i) \<and>
     textFields (text_onChange (textFields s ! i) newText s) ! i =
       (textFields s ! i)\<lparr>width := max 200 (real (length newText) * 8)\<rparr>"
  using assms by (simp add: text_onChange_fields)

theorem text_change_keeps_content_witness:
  "text_content (textFields (text_onChange (textFields example_state ! 0) ''Ada L'' example_state) ! 0) =
     ''Ada'' \<and>
   text_content (textFields (ui_step example_env (TextChange 0 ''Ada L'') example_state) ! 0) = ''Ada''"
proof -
  have len: "0 < length (textFields example_state)" and ro: "\<not> isReadOnly example_state"
    and t0: "text_content (textFields example_state ! 0) = ''Ada''"
    by (simp_all add: example_state_def example_text_1_def)
  have a: "text_content (textFields (text_onChange (textFields example_state ! 0) ''Ada L''
      example_state) ! 0) = ''Ada''"
    using text_change_keeps_content [OF len, of "''Ada L''"] t0 by simp
  have "ui_step example_env (TextChange 0 ''Ada L'') example_state =
      text_onChange (textFields example_state ! 0) ''Ada L'' example_state"
    using len ro by simp
  with a show ?thesis by simp
qed

end
